theory Spec2Isabelle
  imports Main "HOL-Library.AList"
begin

section \<open>Constants and plain data (constants/GameConstants.ts, types/game.types.ts)\<close>

datatype GameStatus = ACTIVE | PAUSED | COMPLETED

datatype PlayerColor = WHITE | BLACK

datatype GameResult = WHITE_WINS | BLACK_WINS | DRAW

datatype DrawType =
  STALEMATE | INSUFFICIENT_MATERIAL | FIFTY_MOVE | THREEFOLD_REPETITION | AGREEMENT

datatype TimeControlType = UNLIMITED | FIXED | FISCHER

definition INITIAL_FEN :: string where
  "INITIAL_FEN = ''rnbqkbnr/pppppppp/8/8/8/8/PPPPPPPP/RNBQKBNR w KQkq - 0 1''"

definition MAX_CONCURRENT_GAMES :: nat where
  "MAX_CONCURRENT_GAMES = 5"

text \<open>
  A \<open>Date\<close> is its millisecond count. JavaScript numbers that the code only ever uses as
  small integers (counts, seconds) are \<open>int\<close>. A number that comes out of \<open>parseInt\<close> is a
  \<open>js_number\<close>: \<open>NaN\<close>, or an integer of magnitude at most \<open>2 ^ 53\<close> (every such integer
  is a double, and arithmetic on it here stays exact), or \<open>Beyond\<close>: a double of the given
  sign (\<open>True\<close> for positive) and of magnitude \<open>2 ^ 51\<close> or more, whose value the model does
  not compute, since the language rounds there. Every \<open>throw new Error(msg)\<close> of the
  source is the value \<open>Error msg\<close>.
\<close>

type_synonym Date = int

datatype error = Error string

datatype js_number = NaN | Num int | Beyond bool

record DrawDetails =
  dd_type :: DrawType
  dd_description :: string
  dd_halfmoveClock :: "int option"
  dd_movesUntilFiftyMove :: "int option"
  dd_repetitionCount :: "int option"
  dd_repeatedPosition :: "string option"

record TimeControl =
  tc_type :: TimeControlType
  initialTime :: "int option"
  increment :: "int option"

section \<open>JavaScript string primitives used by the code\<close>

text \<open>\<open>s.split(c)\<close> for a one-character separator: never empty, keeps empty pieces.\<close>

fun split_on :: "char \<Rightarrow> string \<Rightarrow> string list" where
  "split_on c [] = [[]]"
| "split_on c (x # xs) =
     (if x = c then [] # split_on c xs
      else (case split_on c xs of
              [] \<Rightarrow> [[x]]
            | p # ps \<Rightarrow> (x # p) # ps))"

text \<open>\<open>parts[i]\<close>: \<open>None\<close> is JavaScript's \<open>undefined\<close> for an index out of range.\<close>

definition at_index :: "'a list \<Rightarrow> nat \<Rightarrow> 'a option" where
  "at_index xs i = (if i < length xs then Some (xs ! i) else None)"

text \<open>A value inside a template literal: \<open>undefined\<close> prints as the word.\<close>

definition interpolate :: "string option \<Rightarrow> string" where
  "interpolate p = (case p of None \<Rightarrow> ''undefined'' | Some s \<Rightarrow> s)"

text \<open>\<open>xs.join(sep)\<close>.\<close>

fun join_with :: "string \<Rightarrow> string list \<Rightarrow> string" where
  "join_with sep [] = []"
| "join_with sep [x] = x"
| "join_with sep (x # y # ys) = x @ sep @ join_with sep (y # ys)"

text \<open>
  \<open>parseInt(s, 10)\<close>: leading white space is skipped, one sign is read, then the longest
  run of decimal digits; no digit at all gives \<open>NaN\<close>. White space is the ASCII part of
  the language's set (the strings here are byte strings). Up to \<open>2 ^ 53\<close> the value read is
  the double returned; above, the double returned is a rounding of it, which is \<open>Beyond\<close>.
\<close>

definition is_space :: "char \<Rightarrow> bool" where
  "is_space c = (c \<in> set [CHR 0x09, CHR 0x0A, CHR 0x0B, CHR 0x0C, CHR 0x0D, CHR '' ''])"

definition is_digit :: "char \<Rightarrow> bool" where
  "is_digit c = (48 \<le> (of_char c :: nat) \<and> (of_char c :: nat) \<le> 57)"

definition digit_val :: "char \<Rightarrow> int" where
  "digit_val c = int (of_char c :: nat) - 48"

definition digits_val :: "string \<Rightarrow> int" where
  "digits_val ds = foldl (\<lambda>acc c. 10 * acc + digit_val c) 0 ds"

definition parseInt :: "string \<Rightarrow> js_number" where
  "parseInt s =
     (let t = dropWhile is_space s;
          neg = (case t of [] \<Rightarrow> False | c # _ \<Rightarrow> c = CHR ''-'');
          u = (case t of [] \<Rightarrow> []
               | c # cs \<Rightarrow> if c = CHR ''-'' \<or> c = CHR ''+'' then cs else t);
          ds = takeWhile is_digit u
      in if ds = [] then NaN
         else if digits_val ds \<le> 2 ^ 53
         then Num (if neg then - digits_val ds else digits_val ds)
         else Beyond (\<not> neg))"

text \<open>Truthiness of an optional string: \<open>undefined\<close> and the empty string are falsy.\<close>

definition truthy :: "string option \<Rightarrow> bool" where
  "truthy p = (case p of None \<Rightarrow> False | Some s \<Rightarrow> s \<noteq> [])"

section \<open>The rules engine (the chess.js library), taken as a parameter\<close>

text \<open>
  chess.js is not part of the repository. Its \<open>Chess\<close> class is a parameter: \<open>'e\<close> is the
  state of one instance, and the record gives the methods the code calls. A method that
  can throw returns what happened together with the state it leaves behind, so nothing
  is assumed about the library.
\<close>

datatype move_result =
  MoveSan string     \<comment> \<open>a move object; its \<open>san\<close>\<close>
| MoveNull           \<comment> \<open>\<open>null\<close>\<close>
| MoveThrows string  \<comment> \<open>an exception; its message\<close>

record 'e Chess =
  chess_new :: 'e                                    \<comment> \<open>\<open>new Chess()\<close>\<close>
  chess_ctor :: "string \<Rightarrow> string + 'e"               \<comment> \<open>\<open>new Chess(fen)\<close>, \<open>Inl\<close> the message thrown\<close>
  chess_load :: "'e \<Rightarrow> string \<Rightarrow> bool \<times> 'e"           \<comment> \<open>\<open>load(fen)\<close>: returned normally?\<close>
  chess_move :: "'e \<Rightarrow> string \<Rightarrow> move_result \<times> 'e"
  chess_fen :: "'e \<Rightarrow> string"
  chess_pgn :: "'e \<Rightarrow> string"
  chess_turn :: "'e \<Rightarrow> string"
  chess_isGameOver :: "'e \<Rightarrow> bool"
  chess_isCheckmate :: "'e \<Rightarrow> bool"
  chess_moves :: "'e \<Rightarrow> string list"

section \<open>ChessEngine (core/chess/ChessEngine.ts)\<close>

text \<open>
  A \<open>ChessEngine\<close> holds one \<open>Chess\<close> instance, so its state is an \<open>'e\<close>. The methods the
  match entity calls are modelled, in the one-argument form the entity uses (\<open>to\<close> is
  never passed).
\<close>

definition getFen :: "'e Chess \<Rightarrow> 'e \<Rightarrow> string" where
  "getFen lib e = chess_fen lib e"

definition getPgn :: "'e Chess \<Rightarrow> 'e \<Rightarrow> string" where
  "getPgn lib e = chess_pgn lib e"

definition getTurn :: "'e Chess \<Rightarrow> 'e \<Rightarrow> PlayerColor" where
  "getTurn lib e = (if chess_turn lib e = ''w'' then WHITE else BLACK)"

definition isGameOver :: "'e Chess \<Rightarrow> 'e \<Rightarrow> bool" where
  "isGameOver lib e = chess_isGameOver lib e"

definition isCheckmate :: "'e Chess \<Rightarrow> 'e \<Rightarrow> bool" where
  "isCheckmate lib e = chess_isCheckmate lib e"

definition getHalfmoveClock :: "'e Chess \<Rightarrow> 'e \<Rightarrow> js_number" where
  "getHalfmoveClock lib e =
     (let fenParts = split_on CHR '' '' (chess_fen lib e);
          halfmovePart = at_index fenParts 4
      in (case halfmovePart of
            None \<Rightarrow> Num 0
          | Some p \<Rightarrow> if p = [] then Num 0 else parseInt p))"

definition engine_makeMove :: "'e Chess \<Rightarrow> 'e \<Rightarrow> string \<Rightarrow> bool \<times> 'e" where
  "engine_makeMove lib e from =
     (case chess_move lib e from of
        (MoveSan san, e') \<Rightarrow> (True, e')
      | (MoveNull, e') \<Rightarrow> (False, e')
      | (MoveThrows msg, e') \<Rightarrow> (False, e'))"

definition makeMoveAndGetSan :: "'e Chess \<Rightarrow> 'e \<Rightarrow> string \<Rightarrow> string option \<times> 'e" where
  "makeMoveAndGetSan lib e from =
     (case chess_move lib e from of
        (MoveSan san, e') \<Rightarrow> (Some san, e')
      | (MoveNull, e') \<Rightarrow> (None, e')
      | (MoveThrows msg, e') \<Rightarrow> (None, e'))"

definition loadFen :: "'e Chess \<Rightarrow> 'e \<Rightarrow> string \<Rightarrow> bool \<times> 'e" where
  "loadFen lib e fen = chess_load lib e fen"

record MoveValidation =
  valid :: bool
  reason :: "string option"
  suggestion :: "string option"

definition engine_validateMove :: "'e Chess \<Rightarrow> 'e \<Rightarrow> string \<Rightarrow> error + MoveValidation" where
  "engine_validateMove lib e from =
     (case chess_ctor lib (chess_fen lib e) of
        Inl msg \<Rightarrow> Inl (Error msg)
      | Inr testChess \<Rightarrow>
          (case fst (chess_move lib testChess from) of
             MoveThrows msg \<Rightarrow>
               Inr \<lparr>valid = False,
                    reason = Some (''Invalid notation: '' @ msg),
                    suggestion =
                      Some ''Use algebraic notation (e.g., e2e4, Nf3) or UCI format''\<rparr>
           | MoveSan san \<Rightarrow> Inr \<lparr>valid = True, reason = None, suggestion = None\<rparr>
           | MoveNull \<Rightarrow>
               (let legalMoves = chess_moves lib e;
                    sugg =
                      (if length legalMoves > 0
                       then ''Try one of: '' @ join_with '', '' (take 5 legalMoves)
                            @ (if length legalMoves > 5 then ''...'' else '''')
                       else ''No legal moves available'')
                in Inr \<lparr>valid = False,
                        reason =
                          Some (''Move '' @ [CHR 0x22] @ from @ [CHR 0x22]
                                @ '' is not legal in current position''),
                        suggestion = Some sugg\<rparr>)))"

section \<open>The match entity (core/game/Game.ts)\<close>

text \<open>
  The class \<open>Game\<close> as a record: one field for each property of the class, under the name
  of its getter; \<open>chessEngine\<close> is the private engine instance. \<open>GameData\<close> is the plain
  record that \<open>toJSON\<close> produces. The two \<open>Map\<close>-like fields are maps, \<open>undefined\<close> is
  \<open>None\<close>. Fields hold values: \<open>toJSON\<close> and \<open>fromJSON\<close> pass the move array and the
  \<open>invalidMoveCounts\<close> object on by reference, which no statement below depends on.
\<close>

record 'e Game =
  game_id :: string
  whitePlayerId :: string
  blackPlayerId :: string
  createdAt :: Date
  fen :: string
  pgn :: string
  status :: GameStatus
  currentTurn :: PlayerColor
  result :: "GameResult option"
  drawDetails :: "DrawDetails option"
  timeControl :: "TimeControl option"
  updatedAt :: Date
  lastMoveAt :: "Date option"
  whiteTimeRemaining :: "int option"
  blackTimeRemaining :: "int option"
  drawOfferFrom :: "string option"
  pauseRequestedBy :: "string option"
  invalidMoveCounts :: "string \<rightharpoonup> int"
  moveHistory :: "string list"
  chessEngine :: 'e
  positionHistory :: "string \<rightharpoonup> int"

record GameData =
  data_id :: string
  data_whitePlayerId :: string
  data_blackPlayerId :: string
  data_fen :: string
  data_pgn :: string
  data_status :: GameStatus
  data_result :: "GameResult option"
  data_timeControl :: "TimeControl option"
  data_createdAt :: Date
  data_updatedAt :: Date
  data_lastMoveAt :: "Date option"
  data_whiteTimeRemaining :: "int option"
  data_blackTimeRemaining :: "int option"
  data_drawOfferFrom :: "string option"
  data_pauseRequestedBy :: "string option"
  data_invalidMoveCounts :: "string \<rightharpoonup> int"
  data_moveHistory :: "string list option"
  data_positionHistory :: "(string \<rightharpoonup> int) option"

record DrawStatus =
  halfmoveClock :: js_number
  movesUntilFiftyMove :: js_number
  repetitionCount :: int
  isApproachingFiftyMove :: bool
  isApproachingRepetition :: bool

text \<open>
  A method mutates the object and then returns or throws. Its model returns both: what
  the call gave (\<open>Inl\<close> the error thrown, \<open>Inr\<close> the value returned) and the object as the
  call leaves it, so that "nothing changed on failure" is a statement about the second
  component. \<open>now\<close> is the clock: the instant \<open>new Date()\<close> gives during the call
  (the few readings one call makes are taken at the same instant).
\<close>

type_synonym ('a, 's) outcome = "(error + 'a) \<times> 's"

definition getPositionKey :: "string \<Rightarrow> string" where
  "getPositionKey f =
     (let parts = split_on CHR '' '' f
      in interpolate (at_index parts 0) @ '' '' @ interpolate (at_index parts 1) @ '' ''
         @ interpolate (at_index parts 2) @ '' '' @ interpolate (at_index parts 3))"

definition new_Game ::
  "'e Chess \<Rightarrow> string \<Rightarrow> Date \<Rightarrow> string \<Rightarrow> string \<Rightarrow> TimeControl option \<Rightarrow> 'e Game" where
  "new_Game lib uuid now white black tc =
     (let remaining =
            (case tc of
               None \<Rightarrow> None
             | Some t \<Rightarrow>
                 (case initialTime t of
                    None \<Rightarrow> None
                  | Some n \<Rightarrow> if n = 0 then None else Some n))
      in \<lparr>game_id = uuid,
          whitePlayerId = white,
          blackPlayerId = black,
          createdAt = now,
          fen = INITIAL_FEN,
          pgn = [],
          status = ACTIVE,
          currentTurn = WHITE,
          result = None,
          drawDetails = None,
          timeControl = tc,
          updatedAt = now,
          lastMoveAt = None,
          whiteTimeRemaining = remaining,
          blackTimeRemaining = remaining,
          drawOfferFrom = None,
          pauseRequestedBy = None,
          invalidMoveCounts = Map.empty,
          moveHistory = [],
          chessEngine = chess_new lib,
          positionHistory = [getPositionKey INITIAL_FEN \<mapsto> 1]\<rparr>)"

definition completeGame :: "Date \<Rightarrow> 'e Game \<Rightarrow> GameResult \<Rightarrow> (unit, 'e Game) outcome" where
  "completeGame now g res =
     (if status g = COMPLETED then (Inl (Error ''Game is already completed''), g)
      else (Inr (), g\<lparr>status := COMPLETED, result := Some res, updatedAt := now\<rparr>))"

definition updateStatus :: "Date \<Rightarrow> 'e Game \<Rightarrow> GameStatus \<Rightarrow> (unit, 'e Game) outcome" where
  "updateStatus now g s = (Inr (), g\<lparr>status := s, updatedAt := now\<rparr>)"

definition updatePositionHistory :: "'e Game \<Rightarrow> string \<Rightarrow> int \<times> 'e Game" where
  "updatePositionHistory g f =
     (let positionKey = getPositionKey f;
          count = (case positionHistory g positionKey of None \<Rightarrow> 0 | Some c \<Rightarrow> c) + 1
      in (count, g\<lparr>positionHistory := (positionHistory g)(positionKey \<mapsto> count)\<rparr>))"

definition getPositionRepetitionCount :: "'e Game \<Rightarrow> int" where
  "getPositionRepetitionCount g =
     (case positionHistory g (getPositionKey (fen g)) of None \<Rightarrow> 0 | Some c \<Rightarrow> c)"

definition getDrawStatus :: "'e Chess \<Rightarrow> 'e Game \<Rightarrow> DrawStatus option \<times> 'e Game" where
  "getDrawStatus lib g =
     (if status g \<noteq> ACTIVE then (None, g)
      else
        (let g1 = g\<lparr>chessEngine := snd (loadFen lib (chessEngine g) (fen g))\<rparr>;
             h = getHalfmoveClock lib (chessEngine g1);
             rep = getPositionRepetitionCount g1
         in (Some \<lparr>halfmoveClock = h,
                   movesUntilFiftyMove =
                     (case h of
                        NaN \<Rightarrow> NaN
                      | Num n \<Rightarrow> Num (50 - n div 2)
                      | Beyond positive \<Rightarrow> Beyond (\<not> positive)),
                   repetitionCount = rep,
                   isApproachingFiftyMove =
                     (case h of
                        NaN \<Rightarrow> False
                      | Num n \<Rightarrow> n \<ge> 80
                      | Beyond positive \<Rightarrow> positive),
                   isApproachingRepetition = (rep \<ge> 2)\<rparr>,
             g1)))"

definition pauseGame :: "Date \<Rightarrow> 'e Game \<Rightarrow> string \<Rightarrow> (unit, 'e Game) outcome" where
  "pauseGame now g requestedBy =
     (if status g = COMPLETED then (Inl (Error ''Cannot pause completed game''), g)
      else if status g = PAUSED then (Inl (Error ''Game is already paused''), g)
      else if status g \<noteq> ACTIVE then (Inl (Error ''Can only pause active games''), g)
      else if requestedBy \<noteq> whitePlayerId g \<and> requestedBy \<noteq> blackPlayerId g
      then (Inl (Error ''You are not a player in this game''), g)
      else (Inr (),
            g\<lparr>status := PAUSED, pauseRequestedBy := Some requestedBy, updatedAt := now\<rparr>))"

definition resumeGame :: "Date \<Rightarrow> 'e Game \<Rightarrow> (unit, 'e Game) outcome" where
  "resumeGame now g =
     (if status g = COMPLETED then (Inl (Error ''Cannot resume completed game''), g)
      else if status g \<noteq> PAUSED then (Inl (Error ''Game is not paused''), g)
      else (Inr (), g\<lparr>status := ACTIVE, pauseRequestedBy := None, updatedAt := now\<rparr>))"

definition resignGame :: "Date \<Rightarrow> 'e Game \<Rightarrow> string \<Rightarrow> (unit, 'e Game) outcome" where
  "resignGame now g playerId =
     (if status g \<noteq> ACTIVE then (Inl (Error ''Can only resign active games''), g)
      else if playerId \<noteq> whitePlayerId g \<and> playerId \<noteq> blackPlayerId g
      then (Inl (Error ''Player not in this game''), g)
      else completeGame now g
             (if playerId = whitePlayerId g then BLACK_WINS else WHITE_WINS))"

definition offerDraw :: "Date \<Rightarrow> 'e Game \<Rightarrow> string \<Rightarrow> (unit, 'e Game) outcome" where
  "offerDraw now g playerId =
     (if status g \<noteq> ACTIVE then (Inl (Error ''Can only offer draw in active games''), g)
      else if playerId \<noteq> whitePlayerId g \<and> playerId \<noteq> blackPlayerId g
      then (Inl (Error ''Player not in this game''), g)
      else (Inr (), g\<lparr>drawOfferFrom := Some playerId, updatedAt := now\<rparr>))"

definition acceptDraw :: "Date \<Rightarrow> 'e Game \<Rightarrow> string \<Rightarrow> (unit, 'e Game) outcome" where
  "acceptDraw now g playerId =
     (if status g \<noteq> ACTIVE then (Inl (Error ''Can only accept draw in active games''), g)
      else if \<not> truthy (drawOfferFrom g) then (Inl (Error ''No draw offer to accept''), g)
      else if playerId \<noteq> whitePlayerId g \<and> playerId \<noteq> blackPlayerId g
      then (Inl (Error ''Player not in this game''), g)
      else if Some playerId = drawOfferFrom g
      then (Inl (Error ''Cannot accept your own draw offer''), g)
      else completeGame now
             (g\<lparr>drawDetails :=
                  Some \<lparr>dd_type = AGREEMENT,
                        dd_description = ''Draw by mutual agreement'',
                        dd_halfmoveClock = None,
                        dd_movesUntilFiftyMove = None,
                        dd_repetitionCount = None,
                        dd_repeatedPosition = None\<rparr>\<rparr>)
             DRAW)"

definition declineDraw :: "Date \<Rightarrow> 'e Game \<Rightarrow> (unit, 'e Game) outcome" where
  "declineDraw now g =
     (if \<not> truthy (drawOfferFrom g) then (Inl (Error ''No draw offer to decline''), g)
      else (Inr (), g\<lparr>drawOfferFrom := None, updatedAt := now\<rparr>))"

definition validateMove ::
  "'e Chess \<Rightarrow> 'e Game \<Rightarrow> string \<Rightarrow> (MoveValidation, 'e Game) outcome" where
  "validateMove lib g move =
     (if status g = PAUSED
      then (Inr \<lparr>valid = False,
                 reason = Some ''Game is paused'',
                 suggestion = Some ''Resume the game to make moves''\<rparr>, g)
      else if status g \<noteq> ACTIVE
      then (Inr \<lparr>valid = False,
                 reason = Some ''Cannot validate moves in inactive games'',
                 suggestion = Some ''Game must be active to validate moves''\<rparr>, g)
      else
        (let g1 = g\<lparr>chessEngine := snd (loadFen lib (chessEngine g) (fen g))\<rparr>
         in (engine_validateMove lib (chessEngine g1) move, g1)))"

definition validateMoveConditions :: "'e Game \<Rightarrow> error + unit" where
  "validateMoveConditions g =
     (if status g = PAUSED then Inl (Error ''Game is paused'')
      else if status g \<noteq> ACTIVE then Inl (Error ''Cannot make moves in inactive games'')
      else Inr ())"

definition executeMoveOnEngine ::
  "'e Chess \<Rightarrow> 'e Game \<Rightarrow> string \<Rightarrow> (string, 'e Game) outcome" where
  "executeMoveOnEngine lib g move =
     (let e1 = snd (loadFen lib (chessEngine g) (fen g));
          r = makeMoveAndGetSan lib e1 move;
          g1 = g\<lparr>chessEngine := snd r\<rparr>
      in (case fst r of
            None \<Rightarrow> (Inl (Error (''Invalid move: '' @ move)), g1)
          | Some sanMove \<Rightarrow>
              if sanMove = [] then (Inl (Error (''Invalid move: '' @ move)), g1)
              else (Inr sanMove, g1)))"

definition updateGameStateAfterMove ::
  "'e Chess \<Rightarrow> Date \<Rightarrow> 'e Game \<Rightarrow> string \<Rightarrow> 'e Game" where
  "updateGameStateAfterMove lib now g sanMove =
     (let g1 = g\<lparr>fen := getFen lib (chessEngine g),
                 pgn := getPgn lib (chessEngine g),
                 currentTurn := getTurn lib (chessEngine g),
                 moveHistory := moveHistory g @ [sanMove],
                 lastMoveAt := Some now,
                 updatedAt := now\<rparr>
      in snd (updatePositionHistory g1 (fen g1)))"

definition determineGameResult :: "'e Chess \<Rightarrow> 'e Game \<Rightarrow> GameResult" where
  "determineGameResult lib g =
     (if isCheckmate lib (chessEngine g)
      then (if currentTurn g = WHITE then WHITE_WINS else BLACK_WINS)
      else DRAW)"

definition checkAndHandleGameEnd ::
  "'e Chess \<Rightarrow> Date \<Rightarrow> 'e Game \<Rightarrow> (unit, 'e Game) outcome" where
  "checkAndHandleGameEnd lib now g =
     (if isGameOver lib (chessEngine g)
      then completeGame now g (determineGameResult lib g)
      else (Inr (), g))"

definition makeMove :: "'e Chess \<Rightarrow> Date \<Rightarrow> 'e Game \<Rightarrow> string \<Rightarrow> (unit, 'e Game) outcome" where
  "makeMove lib now g move =
     (case validateMoveConditions g of
        Inl err \<Rightarrow> (Inl err, g)
      | Inr _ \<Rightarrow>
          (case executeMoveOnEngine lib g move of
             (Inl err, g1) \<Rightarrow> (Inl err, g1)
           | (Inr sanMove, g1) \<Rightarrow>
               checkAndHandleGameEnd lib now (updateGameStateAfterMove lib now g1 sanMove)))"

subsection \<open>Serialisation\<close>

definition toJSON :: "'e Game \<Rightarrow> GameData" where
  "toJSON g =
     \<lparr>data_id = game_id g,
      data_whitePlayerId = whitePlayerId g,
      data_blackPlayerId = blackPlayerId g,
      data_fen = fen g,
      data_pgn = pgn g,
      data_status = status g,
      data_result = result g,
      data_timeControl = timeControl g,
      data_createdAt = createdAt g,
      data_updatedAt = updatedAt g,
      data_lastMoveAt = lastMoveAt g,
      data_whiteTimeRemaining = whiteTimeRemaining g,
      data_blackTimeRemaining = blackTimeRemaining g,
      data_drawOfferFrom = drawOfferFrom g,
      data_pauseRequestedBy = pauseRequestedBy g,
      data_invalidMoveCounts = invalidMoveCounts g,
      data_moveHistory = Some (moveHistory g),
      data_positionHistory = Some (positionHistory g)\<rparr>"

text \<open>
  The replay loop of \<open>fromJSON\<close>: each move goes to \<open>ChessEngine.makeMove\<close>, whose boolean
  answer the loop drops. \<open>replay_verdicts\<close> lists those answers; it is what the loop would
  have to look at to notice a rejected move.
\<close>

fun replay :: "'e Chess \<Rightarrow> 'e \<Rightarrow> string list \<Rightarrow> 'e" where
  "replay lib e [] = e"
| "replay lib e (move # moves) = replay lib (snd (engine_makeMove lib e move)) moves"

fun replay_verdicts :: "'e Chess \<Rightarrow> 'e \<Rightarrow> string list \<Rightarrow> bool list" where
  "replay_verdicts lib e [] = []"
| "replay_verdicts lib e (move # moves) =
     fst (engine_makeMove lib e move)
     # replay_verdicts lib (snd (engine_makeMove lib e move)) moves"

definition fromJSON :: "'e Chess \<Rightarrow> GameData \<Rightarrow> error + 'e Game" where
  "fromJSON lib d =
     (let positionHistory0 =
            (case data_positionHistory d of None \<Rightarrow> Map.empty | Some m \<Rightarrow> m);
          game =
            \<lparr>game_id = data_id d,
             whitePlayerId = data_whitePlayerId d,
             blackPlayerId = data_blackPlayerId d,
             createdAt = data_createdAt d,
             fen = data_fen d,
             pgn = data_pgn d,
             status = data_status d,
             currentTurn =
               (if at_index (split_on CHR '' '' (data_fen d)) 1 = Some ''w''
                then WHITE else BLACK),
             result = data_result d,
             drawDetails = None,
             timeControl = data_timeControl d,
             updatedAt = data_updatedAt d,
             lastMoveAt = data_lastMoveAt d,
             whiteTimeRemaining = data_whiteTimeRemaining d,
             blackTimeRemaining = data_blackTimeRemaining d,
             drawOfferFrom = data_drawOfferFrom d,
             pauseRequestedBy = data_pauseRequestedBy d,
             invalidMoveCounts = data_invalidMoveCounts d,
             moveHistory = (case data_moveHistory d of None \<Rightarrow> [] | Some ms \<Rightarrow> ms),
             chessEngine = chess_new lib,
             positionHistory = positionHistory0\<rparr>
      in Inr (case data_moveHistory d of
                None \<Rightarrow> game
              | Some ms \<Rightarrow>
                  if length ms > 0
                  then game\<lparr>chessEngine := replay lib (chessEngine game) ms\<rparr>
                  else game))"

section \<open>The in-memory store (core/storage/InMemoryAdapter.ts)\<close>

text \<open>
  The adapter's \<open>Map\<close> from identifier to game, in insertion order: \<open>Map.set\<close> overwrites in place
  or appends, which is \<open>AList.update\<close>. An exception inside a stored call travels to the
  caller, so each operation returns \<open>Inl\<close> whenever \<open>fromJSON\<close> does.
\<close>

type_synonym 'e store = "(string \<times> 'e Game) list"

text \<open>\<open>xs.map(f)\<close> for a callback that may throw: the first exception ends the loop.\<close>

fun map_throwing :: "('a \<Rightarrow> error + 'b) \<Rightarrow> 'a list \<Rightarrow> error + 'b list" where
  "map_throwing f [] = Inr []"
| "map_throwing f (x # xs) =
     (case f x of
        Inl err \<Rightarrow> Inl err
      | Inr y \<Rightarrow>
          (case map_throwing f xs of
             Inl err \<Rightarrow> Inl err
           | Inr ys \<Rightarrow> Inr (y # ys)))"

definition saveGame :: "'e Chess \<Rightarrow> 'e store \<Rightarrow> 'e Game \<Rightarrow> (unit, 'e store) outcome" where
  "saveGame lib games game =
     (case fromJSON lib (toJSON game) of
        Inl err \<Rightarrow> (Inl err, games)
      | Inr gameCopy \<Rightarrow> (Inr (), AList.update (game_id game) gameCopy games))"

definition loadGame :: "'e Chess \<Rightarrow> 'e store \<Rightarrow> string \<Rightarrow> error + 'e Game option" where
  "loadGame lib games ident =
     (case map_of games ident of
        None \<Rightarrow> Inr None
      | Some game \<Rightarrow>
          (case fromJSON lib (toJSON game) of
             Inl err \<Rightarrow> Inl err
           | Inr gameCopy \<Rightarrow> Inr (Some gameCopy)))"

definition deleteGame :: "'e store \<Rightarrow> string \<Rightarrow> bool \<times> 'e store" where
  "deleteGame games ident = (map_of games ident \<noteq> None, AList.delete ident games)"

definition loadAllGames :: "'e Chess \<Rightarrow> 'e store \<Rightarrow> error + 'e Game list" where
  "loadAllGames lib games = map_throwing (\<lambda>game. fromJSON lib (toJSON game)) (map snd games)"

definition loadGamesByStatus :: "'e Chess \<Rightarrow> 'e store \<Rightarrow> GameStatus \<Rightarrow> error + 'e Game list" where
  "loadGamesByStatus lib games s =
     (case loadAllGames lib games of
        Inl err \<Rightarrow> Inl err
      | Inr allGames \<Rightarrow> Inr (filter (\<lambda>game. status game = s) allGames))"

definition countActiveGames :: "'e Chess \<Rightarrow> 'e store \<Rightarrow> error + nat" where
  "countActiveGames lib games =
     (case loadGamesByStatus lib games ACTIVE of
        Inl err \<Rightarrow> Inl err
      | Inr activeGames \<Rightarrow> Inr (length activeGames))"

section \<open>The session manager (core/game/GameManager.ts)\<close>

text \<open>
  The manager's only state is its store. \<open>uuid\<close> is the identifier \<open>uuidv4()\<close> hands to the
  constructor of the new game.
\<close>

definition createGame ::
  "'e Chess \<Rightarrow> string \<Rightarrow> Date \<Rightarrow> 'e store \<Rightarrow> string \<Rightarrow> string \<Rightarrow> TimeControl option
   \<Rightarrow> ('e Game, 'e store) outcome" where
  "createGame lib uuid now games white black tc =
     (case countActiveGames lib games of
        Inl err \<Rightarrow> (Inl err, games)
      | Inr activeGameCount \<Rightarrow>
          if activeGameCount \<ge> MAX_CONCURRENT_GAMES
          then (Inl (Error ''Maximum number of concurrent games (5) reached''), games)
          else
            (let game = new_Game lib uuid now white black tc
             in (case saveGame lib games game of
                   (Inl err, games') \<Rightarrow> (Inl err, games')
                 | (Inr _, games') \<Rightarrow> (Inr game, games'))))"

definition manager_completeGame ::
  "'e Chess \<Rightarrow> Date \<Rightarrow> 'e store \<Rightarrow> string \<Rightarrow> GameResult \<Rightarrow> (unit, 'e store) outcome" where
  "manager_completeGame lib now games gameId res =
     (case loadGame lib games gameId of
        Inl err \<Rightarrow> (Inl err, games)
      | Inr None \<Rightarrow> (Inl (Error ''Game not found''), games)
      | Inr (Some game) \<Rightarrow>
          (case completeGame now game res of
             (Inl err, _) \<Rightarrow> (Inl err, games)
           | (Inr _, game') \<Rightarrow> saveGame lib games game'))"

definition manager_pauseGame ::
  "'e Chess \<Rightarrow> Date \<Rightarrow> 'e store \<Rightarrow> string \<Rightarrow> string \<Rightarrow> (unit, 'e store) outcome" where
  "manager_pauseGame lib now games gameId requestedBy =
     (case loadGame lib games gameId of
        Inl err \<Rightarrow> (Inl err, games)
      | Inr None \<Rightarrow> (Inl (Error ''Game not found''), games)
      | Inr (Some game) \<Rightarrow>
          (case pauseGame now game requestedBy of
             (Inl err, _) \<Rightarrow> (Inl err, games)
           | (Inr _, game') \<Rightarrow> saveGame lib games game'))"

definition manager_resumeGame ::
  "'e Chess \<Rightarrow> Date \<Rightarrow> 'e store \<Rightarrow> string \<Rightarrow> (unit, 'e store) outcome" where
  "manager_resumeGame lib now games gameId =
     (case loadGame lib games gameId of
        Inl err \<Rightarrow> (Inl err, games)
      | Inr None \<Rightarrow> (Inl (Error ''Game not found''), games)
      | Inr (Some game) \<Rightarrow>
          (case resumeGame now game of
             (Inl err, _) \<Rightarrow> (Inl err, games)
           | (Inr _, game') \<Rightarrow> saveGame lib games game'))"

definition manager_makeMove ::
  "'e Chess \<Rightarrow> Date \<Rightarrow> 'e store \<Rightarrow> string \<Rightarrow> string \<Rightarrow> (unit, 'e store) outcome" where
  "manager_makeMove lib now games gameId move =
     (case loadGame lib games gameId of
        Inl err \<Rightarrow> (Inl err, games)
      | Inr None \<Rightarrow> (Inl (Error ''Game not found''), games)
      | Inr (Some game) \<Rightarrow>
          (case makeMove lib now game move of
             (Inl err, _) \<Rightarrow> (Inl err, games)
           | (Inr _, game') \<Rightarrow> saveGame lib games game'))"

definition manager_resignGame ::
  "'e Chess \<Rightarrow> Date \<Rightarrow> 'e store \<Rightarrow> string \<Rightarrow> string \<Rightarrow> (unit, 'e store) outcome" where
  "manager_resignGame lib now games gameId playerId =
     (case loadGame lib games gameId of
        Inl err \<Rightarrow> (Inl err, games)
      | Inr None \<Rightarrow> (Inl (Error ''Game not found''), games)
      | Inr (Some game) \<Rightarrow>
          (case resignGame now game playerId of
             (Inl err, _) \<Rightarrow> (Inl err, games)
           | (Inr _, game') \<Rightarrow> saveGame lib games game'))"

definition manager_offerDraw ::
  "'e Chess \<Rightarrow> Date \<Rightarrow> 'e store \<Rightarrow> string \<Rightarrow> string \<Rightarrow> (unit, 'e store) outcome" where
  "manager_offerDraw lib now games gameId playerId =
     (case loadGame lib games gameId of
        Inl err \<Rightarrow> (Inl err, games)
      | Inr None \<Rightarrow> (Inl (Error ''Game not found''), games)
      | Inr (Some game) \<Rightarrow>
          (case offerDraw now game playerId of
             (Inl err, _) \<Rightarrow> (Inl err, games)
           | (Inr _, game') \<Rightarrow> saveGame lib games game'))"

definition manager_acceptDraw ::
  "'e Chess \<Rightarrow> Date \<Rightarrow> 'e store \<Rightarrow> string \<Rightarrow> string \<Rightarrow> (unit, 'e store) outcome" where
  "manager_acceptDraw lib now games gameId playerId =
     (case loadGame lib games gameId of
        Inl err \<Rightarrow> (Inl err, games)
      | Inr None \<Rightarrow> (Inl (Error ''Game not found''), games)
      | Inr (Some game) \<Rightarrow>
          (case acceptDraw now game playerId of
             (Inl err, _) \<Rightarrow> (Inl err, games)
           | (Inr _, game') \<Rightarrow> saveGame lib games game'))"

definition manager_declineDraw ::
  "'e Chess \<Rightarrow> Date \<Rightarrow> 'e store \<Rightarrow> string \<Rightarrow> string \<Rightarrow> (unit, 'e store) outcome" where
  "manager_declineDraw lib now games gameId playerId =
     (case loadGame lib games gameId of
        Inl err \<Rightarrow> (Inl err, games)
      | Inr None \<Rightarrow> (Inl (Error ''Game not found''), games)
      | Inr (Some game) \<Rightarrow>
          if playerId \<noteq> whitePlayerId game \<and> playerId \<noteq> blackPlayerId game
          then (Inl (Error ''Player not in this game''), games)
          else
            (case declineDraw now game of
               (Inl err, _) \<Rightarrow> (Inl err, games)
             | (Inr _, game') \<Rightarrow> saveGame lib games game'))"

text \<open>
  The wrapper as the specification words it: load the match, fail with "not found" when
  it is absent, run the entity operation and pass its error on unchanged, persist the
  result. An error of the store itself passes through as well.
\<close>

definition load_mutate_persist ::
  "'e Chess \<Rightarrow> 'e store \<Rightarrow> string \<Rightarrow> ('e Game \<Rightarrow> (unit, 'e Game) outcome)
   \<Rightarrow> (unit, 'e store) outcome" where
  "load_mutate_persist lib games gameId operation =
     (case loadGame lib games gameId of
        Inl err \<Rightarrow> (Inl err, games)
      | Inr None \<Rightarrow> (Inl (Error ''Game not found''), games)
      | Inr (Some game) \<Rightarrow>
          (case fst (operation game) of
             Inl err \<Rightarrow> (Inl err, games)
           | Inr _ \<Rightarrow> saveGame lib games (snd (operation game))))"

section \<open>A small rules engine to run the model on\<close>

text \<open>
  Concrete runs need a concrete engine. This one knows eight positions: the opening, the
  two after \<open>1. e4\<close> and \<open>1. e4 e5\<close>, the four along \<open>1. Nf3 Nf6 2. Ng1 Ng8\<close> (the last
  has the opening's placement again, with other counters), and one late endgame. It
  accepts the moves between them and throws on every other move or position; its
  transcript is the plain move list.
\<close>

datatype demo_state =
  AtStart | AfterE4 | AfterE4E5 | AfterNf3 | AfterNf3Nf6 | AfterNg1 | BackAtStart | Endgame

definition demo_fen :: "demo_state \<Rightarrow> string" where
  "demo_fen e =
     (case e of
        AtStart \<Rightarrow> ''rnbqkbnr/pppppppp/8/8/8/8/PPPPPPPP/RNBQKBNR w KQkq - 0 1''
      | AfterE4 \<Rightarrow> ''rnbqkbnr/pppppppp/8/8/4P3/8/PPPP1PPP/RNBQKBNR b KQkq - 0 1''
      | AfterE4E5 \<Rightarrow> ''rnbqkbnr/pppp1ppp/8/4p3/4P3/8/PPPP1PPP/RNBQKBNR w KQkq - 0 2''
      | AfterNf3 \<Rightarrow> ''rnbqkbnr/pppppppp/8/8/8/5N2/PPPPPPPP/RNBQKB1R b KQkq - 1 1''
      | AfterNf3Nf6 \<Rightarrow> ''rnbqkb1r/pppppppp/5n2/8/8/5N2/PPPPPPPP/RNBQKB1R w KQkq - 2 2''
      | AfterNg1 \<Rightarrow> ''rnbqkb1r/pppppppp/5n2/8/8/8/PPPPPPPP/RNBQKBNR b KQkq - 3 2''
      | BackAtStart \<Rightarrow> ''rnbqkbnr/pppppppp/8/8/8/8/PPPPPPPP/RNBQKBNR w KQkq - 4 3''
      | Endgame \<Rightarrow> ''8/8/8/4k3/8/8/8/4K2R w - - 85 60'')"

definition demo_parse :: "string \<Rightarrow> demo_state option" where
  "demo_parse f =
     (if f = demo_fen AtStart then Some AtStart
      else if f = demo_fen AfterE4 then Some AfterE4
      else if f = demo_fen AfterE4E5 then Some AfterE4E5
      else if f = demo_fen AfterNf3 then Some AfterNf3
      else if f = demo_fen AfterNf3Nf6 then Some AfterNf3Nf6
      else if f = demo_fen AfterNg1 then Some AfterNg1
      else if f = demo_fen BackAtStart then Some BackAtStart
      else if f = demo_fen Endgame then Some Endgame
      else None)"

definition demo_move :: "demo_state \<Rightarrow> string \<Rightarrow> move_result \<times> demo_state" where
  "demo_move e m =
     (if e = AtStart \<and> m = ''e4'' then (MoveSan ''e4'', AfterE4)
      else if e = AfterE4 \<and> m = ''e5'' then (MoveSan ''e5'', AfterE4E5)
      else if e = AtStart \<and> m = ''Nf3'' then (MoveSan ''Nf3'', AfterNf3)
      else if e = AfterNf3 \<and> m = ''Nf6'' then (MoveSan ''Nf6'', AfterNf3Nf6)
      else if e = AfterNf3Nf6 \<and> m = ''Ng1'' then (MoveSan ''Ng1'', AfterNg1)
      else if e = AfterNg1 \<and> m = ''Ng8'' then (MoveSan ''Ng8'', BackAtStart)
      else (MoveThrows (''Invalid move: '' @ m), e))"

definition demo_chess :: "demo_state Chess" where
  "demo_chess =
     \<lparr>chess_new = AtStart,
      chess_ctor = (\<lambda>f. case demo_parse f of
                          None \<Rightarrow> Inl (''Invalid FEN: '' @ f)
                        | Some e \<Rightarrow> Inr e),
      chess_load = (\<lambda>e f. case demo_parse f of None \<Rightarrow> (False, e) | Some e' \<Rightarrow> (True, e')),
      chess_move = demo_move,
      chess_fen = demo_fen,
      chess_pgn = (\<lambda>e. case e of
                         AtStart \<Rightarrow> []
                       | AfterE4 \<Rightarrow> ''1. e4''
                       | AfterE4E5 \<Rightarrow> ''1. e4 e5''
                       | AfterNf3 \<Rightarrow> ''1. Nf3''
                       | AfterNf3Nf6 \<Rightarrow> ''1. Nf3 Nf6''
                       | AfterNg1 \<Rightarrow> ''1. Nf3 Nf6 2. Ng1''
                       | BackAtStart \<Rightarrow> ''1. Nf3 Nf6 2. Ng1 Ng8''
                       | Endgame \<Rightarrow> []),
      chess_turn = (\<lambda>e. case e of
                          AfterE4 \<Rightarrow> ''b''
                        | AfterNf3 \<Rightarrow> ''b''
                        | AfterNg1 \<Rightarrow> ''b''
                        | _ \<Rightarrow> ''w''),
      chess_isGameOver = (\<lambda>e. False),
      chess_isCheckmate = (\<lambda>e. False),
      chess_moves = (\<lambda>e. case e of
                           AtStart \<Rightarrow> [''e4'', ''Nf3'']
                         | AfterE4 \<Rightarrow> [''e5'']
                         | AfterNf3 \<Rightarrow> [''Nf6'']
                         | AfterNf3Nf6 \<Rightarrow> [''Ng1'']
                         | AfterNg1 \<Rightarrow> [''Ng8'']
                         | _ \<Rightarrow> [])\<rparr>"

section \<open>Vocabulary of the claims\<close>

text \<open>
  The state-changing methods a caller can invoke on a match (the eight of the state
  machine, and the public \<open>updateStatus\<close>), and the state a match is in after a sequence
  of such calls. A call that throws leaves the object as it is at the throw, and the
  caller may go on calling.
\<close>

datatype operation =
  MakeMove string | PauseGame string | ResumeGame | OfferDraw string | AcceptDraw string
| DeclineDraw | ResignGame string | CompleteGame GameResult | UpdateStatus GameStatus

fun apply_operation ::
  "'e Chess \<Rightarrow> Date \<Rightarrow> 'e Game \<Rightarrow> operation \<Rightarrow> (unit, 'e Game) outcome" where
  "apply_operation lib now g (MakeMove move) = makeMove lib now g move"
| "apply_operation lib now g (PauseGame p) = pauseGame now g p"
| "apply_operation lib now g ResumeGame = resumeGame now g"
| "apply_operation lib now g (OfferDraw p) = offerDraw now g p"
| "apply_operation lib now g (AcceptDraw p) = acceptDraw now g p"
| "apply_operation lib now g DeclineDraw = declineDraw now g"
| "apply_operation lib now g (ResignGame p) = resignGame now g p"
| "apply_operation lib now g (CompleteGame res) = completeGame now g res"
| "apply_operation lib now g (UpdateStatus s) = updateStatus now g s"

fun run_operations :: "'e Chess \<Rightarrow> 'e Game \<Rightarrow> (Date \<times> operation) list \<Rightarrow> 'e Game" where
  "run_operations lib g [] = g"
| "run_operations lib g ((now, oper) # rest) =
     run_operations lib (snd (apply_operation lib now g oper)) rest"

text \<open>
  The rules engine rejects a move text on a match: loaded with the match's position, as
  \<open>executeMoveOnEngine\<close> loads it, the library's \<open>move\<close> returns \<open>null\<close> or throws.
\<close>

definition engine_rejects :: "'e Chess \<Rightarrow> 'e Game \<Rightarrow> string \<Rightarrow> bool" where
  "engine_rejects lib g move =
     (case fst (chess_move lib (snd (chess_load lib (chessEngine g) (fen g))) move) of
        MoveSan san \<Rightarrow> False
      | MoveNull \<Rightarrow> True
      | MoveThrows msg \<Rightarrow> True)"

text \<open>
  The shape of a position encoding, for saying which of its fields the code reads:
  \<open>no_space\<close> holds of a field, \<open>ends_field\<close> of what may follow one (nothing, or a space and
  more), and \<open>decimal n\<close> is the numeral of \<open>n\<close>, its digits in base ten without leading
  zeros.
\<close>

definition no_space :: "string \<Rightarrow> bool" where
  "no_space f = (CHR '' '' \<notin> set f)"

definition ends_field :: "string \<Rightarrow> bool" where
  "ends_field r = (case r of [] \<Rightarrow> True | c # _ \<Rightarrow> c = CHR '' '')"

definition digit_char :: "nat \<Rightarrow> char" where
  "digit_char d = ''0123456789'' ! d"

fun decimal :: "nat \<Rightarrow> string" where
  "decimal n = (if n < 10 then [digit_char n] else decimal (n div 10) @ [digit_char (n mod 10)])"

text \<open>The number of stored matches whose status is \<open>ACTIVE\<close>.\<close>

definition active_count :: "'e store \<Rightarrow> nat" where
  "active_count games = length (filter (\<lambda>game. status game = ACTIVE) (map snd games))"

subsection \<open>Concrete matches and stores\<close>

definition sample_game :: "string \<Rightarrow> demo_state Game" where
  "sample_game uuid = new_Game demo_chess uuid 1000 ''alice'' ''bob'' None"

definition paused_game :: "demo_state Game" where
  "paused_game = snd (pauseGame 2000 (sample_game ''game-1'') ''alice'')"

definition offered_game :: "demo_state Game" where
  "offered_game = snd (offerDraw 2000 (sample_game ''game-1'') ''alice'')"

definition five_active :: "demo_state store" where
  "five_active =
     [(''game-1'', sample_game ''game-1''), (''game-2'', sample_game ''game-2''),
      (''game-3'', sample_game ''game-3''), (''game-4'', sample_game ''game-4''),
      (''game-5'', sample_game ''game-5'')]"


definition offered_store :: "demo_state store" where
  "offered_store = [(''game-1'', offered_game)]"

text \<open>
  A match that has gone \<open>1. Nf3 Nf6 2. Ng1 Ng8\<close>, so that the pieces stand as at the
  opening, and a match restored in a late endgame seen twice, 85 half-moves after the
  last capture.
\<close>

definition returned_game :: "demo_state Game" where
  "returned_game =
     run_operations demo_chess (sample_game ''game-1'')
       [(2000, MakeMove ''Nf3''), (3000, MakeMove ''Nf6''), (4000, MakeMove ''Ng1''),
        (5000, MakeMove ''Ng8'')]"

definition endgame_game :: "demo_state Game" where
  "endgame_game =
     (sample_game ''game-2'')
       \<lparr>fen := ''8/8/8/4k3/8/8/8/4K2R w - - 85 60'',
        positionHistory := [''8/8/8/4k3/8/8/8/4K2R w - -'' \<mapsto> 2]\<rparr>"

text \<open>A match on which alice has offered a draw and bob has then resigned.\<close>

definition resigned_game :: "demo_state Game" where
  "resigned_game =
     run_operations demo_chess (sample_game ''game-1'')
       [(2000, OfferDraw ''alice''), (3000, ResignGame ''bob'')]"

text \<open>A serialised match whose second recorded move is no legal move after \<open>1. e4\<close>.\<close>

definition replayed_record :: GameData where
  "replayed_record =
     (toJSON (sample_game ''game-1''))\<lparr>data_moveHistory := Some [''e4'', ''Ke2'']\<rparr>"

section \<open>Serialisation\<close>

lemma fromJSON_of_toJSON:
  "fromJSON lib (toJSON g) =
     Inr (g\<lparr>currentTurn :=
              (if at_index (split_on CHR '' '' (fen g)) 1 = Some ''w'' then WHITE else BLACK),
            drawDetails := None,
            chessEngine := replay lib (chess_new lib) (moveHistory g)\<rparr>)"
  by (cases "moveHistory g") (simp_all add: fromJSON_def toJSON_def)

lemma toJSON_ignores:
  "toJSON (g\<lparr>currentTurn := t, drawDetails := dd, chessEngine := e\<rparr>) = toJSON g"
  by (simp add: toJSON_def)

lemma sample_game_status: "status (sample_game u) = ACTIVE"
  by (simp add: sample_game_def new_Game_def)

lemma paused_game_status: "status paused_game = PAUSED"
  by (simp add: paused_game_def pauseGame_def sample_game_def new_Game_def)

text \<open>
  C6. Serialising, restoring and serialising again gives the first record back, every
  field of it, the \<open>positionHistory\<close> mapping included; and the restoring step does
  return a match.
\<close>

theorem toJSON_fromJSON_toJSON:
  fixes lib :: "'e Chess" and g :: "'e Game"
  shows "\<exists>g'. fromJSON lib (toJSON g) = Inr g' \<and> toJSON g' = toJSON g"
  by (simp only: fromJSON_of_toJSON sum.inject simp_thms ex_simps toJSON_ignores)

theorem toJSON_fromJSON_toJSON_witness:
  "\<exists>g'. fromJSON demo_chess (toJSON paused_game) = Inr g' \<and> toJSON g' = toJSON paused_game"
  using toJSON_fromJSON_toJSON [of demo_chess paused_game] by simp

text \<open>
  C2, as stated, fails: \<open>fromJSON\<close> has no failing path. On the record below the replay
  from the opening position accepts \<open>e4\<close> and rejects \<open>Ke2\<close>, and \<open>fromJSON\<close> still returns
  a match carrying both moves.
\<close>

theorem fromJSON_keeps_rejected_replay:
  "replay_verdicts demo_chess (chess_new demo_chess) [''e4'', ''Ke2''] = [True, False]
   \<and> data_moveHistory replayed_record = Some [''e4'', ''Ke2'']
   \<and> map_sum id moveHistory (fromJSON demo_chess replayed_record) = Inr [''e4'', ''Ke2'']"
  by (simp add: replayed_record_def fromJSON_def toJSON_def engine_makeMove_def demo_chess_def
      demo_move_def)

text \<open>
  C2, amended. \<open>fromJSON\<close> returns a match for every record, whatever the replay answers;
  the match carries the record's position and move list, and its turn is white when the
  second space-separated field of the restored position is \<open>w\<close>, black otherwise.
\<close>

theorem fromJSON_returns_turn_from_fen:
  "\<exists>g. fromJSON lib d = Inr g
       \<and> fen g = data_fen d
       \<and> moveHistory g = (case data_moveHistory d of None \<Rightarrow> [] | Some ms \<Rightarrow> ms)
       \<and> currentTurn g =
           (if at_index (split_on CHR '' '' (fen g)) 1 = Some ''w'' then WHITE else BLACK)"
  by (simp add: fromJSON_def Let_def split: option.splits)

theorem fromJSON_returns_turn_from_fen_witness:
  "\<exists>g. fromJSON demo_chess replayed_record = Inr g
       \<and> moveHistory g = [''e4'', ''Ke2'']
       \<and> currentTurn g = WHITE"
proof -
  have f: "data_fen replayed_record = INITIAL_FEN"
    by (simp add: replayed_record_def toJSON_def sample_game_def new_Game_def)
  have m: "data_moveHistory replayed_record = Some [''e4'', ''Ke2'']"
    by (simp add: replayed_record_def)
  have w: "at_index (split_on CHR '' '' INITIAL_FEN) 1 = Some ''w''"
    by (simp add: INITIAL_FEN_def at_index_def)
  from fromJSON_returns_turn_from_fen [of demo_chess replayed_record]
  obtain g where "fromJSON demo_chess replayed_record = Inr g"
    and "fen g = data_fen replayed_record"
    and "moveHistory g = (case data_moveHistory replayed_record of
                            None \<Rightarrow> [] | Some ms \<Rightarrow> ms)"
    and "currentTurn g =
           (if at_index (split_on CHR '' '' (fen g)) 1 = Some ''w'' then WHITE else BLACK)"
    by blast
  with f m w have "fromJSON demo_chess replayed_record = Inr g
       \<and> moveHistory g = [''e4'', ''Ke2''] \<and> currentTurn g = WHITE"
    by simp
  then show ?thesis by blast
qed

section \<open>The state machine of a match\<close>

text \<open>
  C1, as stated, fails: \<open>completeGame\<close> refuses only a \<open>COMPLETED\<close> match, so it takes a
  \<open>PAUSED\<close> match to \<open>COMPLETED\<close> in one call.
\<close>

theorem paused_completeGame_succeeds:
  "status paused_game = PAUSED
   \<and> fst (completeGame 3000 paused_game DRAW) = Inr ()
   \<and> status (snd (completeGame 3000 paused_game DRAW)) = COMPLETED"
  by (simp add: paused_game_status completeGame_def)

lemma makeMove_paused:
  "status g = PAUSED \<Longrightarrow> makeMove lib now g move = (Inl (Error ''Game is paused''), g)"
  by (simp add: makeMove_def validateMoveConditions_def)

text \<open>
  C1, amended. On a \<open>PAUSED\<close> match one call of a state-changing method gives
  \<open>COMPLETED\<close> exactly when the method is \<open>completeGame\<close> (with any result), which only
  refuses a \<open>COMPLETED\<close> match, or \<open>updateStatus\<close> with \<open>COMPLETED\<close>, which sets whatever it
  is given. \<open>resignGame\<close>, \<open>acceptDraw\<close>, \<open>makeMove\<close>, \<open>pauseGame\<close> and \<open>offerDraw\<close> fail and
  leave the match as it was, \<open>declineDraw\<close> leaves it \<open>PAUSED\<close>, and \<open>resumeGame\<close> makes it
  \<open>ACTIVE\<close>.
\<close>

theorem paused_transitions:
  assumes "status g = PAUSED"
  shows "(status (snd (apply_operation lib now g oper)) = COMPLETED
            \<longleftrightarrow> (\<exists>res. oper = CompleteGame res) \<or> oper = UpdateStatus COMPLETED)
         \<and> resignGame now g p = (Inl (Error ''Can only resign active games''), g)
         \<and> acceptDraw now g p = (Inl (Error ''Can only accept draw in active games''), g)
         \<and> makeMove lib now g move = (Inl (Error ''Game is paused''), g)
         \<and> pauseGame now g p = (Inl (Error ''Game is already paused''), g)
         \<and> offerDraw now g p = (Inl (Error ''Can only offer draw in active games''), g)
         \<and> status (snd (declineDraw now g)) = PAUSED
         \<and> resumeGame now g
             = (Inr (), g\<lparr>status := ACTIVE, pauseRequestedBy := None, updatedAt := now\<rparr>)
         \<and> completeGame now g res
             = (Inr (), g\<lparr>status := COMPLETED, result := Some res, updatedAt := now\<rparr>)"
proof -
  have one_call: "status (snd (apply_operation lib now g oper)) = COMPLETED
            \<longleftrightarrow> (\<exists>res. oper = CompleteGame res) \<or> oper = UpdateStatus COMPLETED"
  proof (cases oper)
    case (MakeMove m)
    with assms show ?thesis by (simp add: makeMove_paused)
  next
    case (PauseGame q)
    with assms show ?thesis by (simp add: pauseGame_def)
  next
    case ResumeGame
    with assms show ?thesis by (simp add: resumeGame_def)
  next
    case (OfferDraw q)
    with assms show ?thesis by (simp add: offerDraw_def)
  next
    case (AcceptDraw q)
    with assms show ?thesis by (simp add: acceptDraw_def)
  next
    case DeclineDraw
    with assms show ?thesis by (simp add: declineDraw_def)
  next
    case (ResignGame q)
    with assms show ?thesis by (simp add: resignGame_def)
  next
    case (CompleteGame r)
    with assms show ?thesis by (simp add: completeGame_def)
  next
    case (UpdateStatus s)
    with assms show ?thesis by (simp add: updateStatus_def)
  qed
  from assms have rest:
    "resignGame now g p = (Inl (Error ''Can only resign active games''), g)
     \<and> acceptDraw now g p = (Inl (Error ''Can only accept draw in active games''), g)
     \<and> makeMove lib now g move = (Inl (Error ''Game is paused''), g)
     \<and> pauseGame now g p = (Inl (Error ''Game is already paused''), g)
     \<and> offerDraw now g p = (Inl (Error ''Can only offer draw in active games''), g)
     \<and> status (snd (declineDraw now g)) = PAUSED
     \<and> resumeGame now g
         = (Inr (), g\<lparr>status := ACTIVE, pauseRequestedBy := None, updatedAt := now\<rparr>)
     \<and> completeGame now g res
         = (Inr (), g\<lparr>status := COMPLETED, result := Some res, updatedAt := now\<rparr>)"
    by (simp add: resignGame_def acceptDraw_def makeMove_paused pauseGame_def offerDraw_def
        declineDraw_def resumeGame_def completeGame_def)
  from one_call rest show ?thesis by (rule conjI)
qed

theorem paused_transitions_witness:
  "status paused_game = PAUSED
   \<and> status (snd (apply_operation demo_chess 3000 paused_game (CompleteGame DRAW))) = COMPLETED
   \<and> status (snd (apply_operation demo_chess 3000 paused_game (UpdateStatus COMPLETED)))
       = COMPLETED
   \<and> status (snd (apply_operation demo_chess 3000 paused_game (ResignGame ''alice'')))
       \<noteq> COMPLETED
   \<and> status (snd (apply_operation demo_chess 3000 paused_game ResumeGame)) \<noteq> COMPLETED
   \<and> status (snd (apply_operation demo_chess 3000 paused_game DeclineDraw)) \<noteq> COMPLETED
   \<and> resignGame 3000 paused_game ''alice''
       = (Inl (Error ''Can only resign active games''), paused_game)
   \<and> makeMove demo_chess 3000 paused_game ''e4'' = (Inl (Error ''Game is paused''), paused_game)
   \<and> status (snd (resumeGame 3000 paused_game)) = ACTIVE"
proof -
  note t = paused_transitions [where g = paused_game and now = 3000 and p = "''alice''"
      and lib = demo_chess and move = "''e4''" and res = DRAW, OF paused_game_status]
  note one = t [THEN conjunct1]
  have a: "status (snd (apply_operation demo_chess 3000 paused_game (CompleteGame DRAW)))
             = COMPLETED"
    using one [of "CompleteGame DRAW"] by blast
  have b: "status (snd (apply_operation demo_chess 3000 paused_game (UpdateStatus COMPLETED)))
             = COMPLETED"
    using one [of "UpdateStatus COMPLETED"] by blast
  have c: "status (snd (apply_operation demo_chess 3000 paused_game (ResignGame ''alice'')))
             \<noteq> COMPLETED"
    using one [of "ResignGame ''alice''"] by simp
  have d: "status (snd (apply_operation demo_chess 3000 paused_game ResumeGame)) \<noteq> COMPLETED"
    using one [of ResumeGame] by simp
  have e: "status (snd (apply_operation demo_chess 3000 paused_game DeclineDraw)) \<noteq> COMPLETED"
    using one [of DeclineDraw] by simp
  have f: "resignGame 3000 paused_game ''alice''
       = (Inl (Error ''Can only resign active games''), paused_game)"
    using t [of ResumeGame] by (elim conjE)
  have g: "makeMove demo_chess 3000 paused_game ''e4''
       = (Inl (Error ''Game is paused''), paused_game)"
    using t [of ResumeGame] by (elim conjE)
  have "resumeGame 3000 paused_game
          = (Inr (), paused_game\<lparr>status := ACTIVE, pauseRequestedBy := None,
                                 updatedAt := 3000\<rparr>)"
    using t [of ResumeGame] by (elim conjE)
  then have h: "status (snd (resumeGame 3000 paused_game)) = ACTIVE"
    by simp
  from paused_game_status a b c d e f g h show ?thesis
    by (intro conjI)
qed

text \<open>
  C3, as stated, fails: \<open>pauseGame\<close> and \<open>completeGame\<close> do not touch \<open>drawOfferFrom\<close>. A new
  match on which alice offers a draw and bob then pauses is \<open>PAUSED\<close> with the offer
  still set; when bob resigns instead, it is \<open>COMPLETED\<close> with the offer still set.
\<close>

theorem draw_offer_survives_pause:
  "drawOfferFrom (run_operations demo_chess (sample_game ''game-1'')
                    [(2000, OfferDraw ''alice''), (3000, PauseGame ''bob'')]) = Some ''alice''
   \<and> status (run_operations demo_chess (sample_game ''game-1'')
                [(2000, OfferDraw ''alice''), (3000, PauseGame ''bob'')]) = PAUSED
   \<and> drawOfferFrom resigned_game = Some ''alice''
   \<and> status resigned_game = COMPLETED"
  by (simp add: resigned_game_def sample_game_def new_Game_def offerDraw_def pauseGame_def
      resignGame_def completeGame_def)

lemma makeMove_keeps_offer: "drawOfferFrom (snd (makeMove lib now g move)) = drawOfferFrom g"
  by (simp add: makeMove_def validateMoveConditions_def executeMoveOnEngine_def Let_def
      checkAndHandleGameEnd_def updateGameStateAfterMove_def updatePositionHistory_def
      completeGame_def split: sum.splits option.splits prod.splits)

text \<open>
  C3, amended. A state-changing method changes \<open>drawOfferFrom\<close> in two cases only:
  \<open>offerDraw\<close> by a participant on an \<open>ACTIVE\<close> match sets it to that participant, and
  \<open>declineDraw\<close> clears an outstanding offer. Every other call (\<open>makeMove\<close>, also a move
  that ends the game, \<open>pauseGame\<close>, \<open>resumeGame\<close>, \<open>acceptDraw\<close>, \<open>resignGame\<close>,
  \<open>completeGame\<close>, \<open>updateStatus\<close>, and a failing \<open>offerDraw\<close> or \<open>declineDraw\<close>) leaves the
  field exactly as it was. So the field gets a new set value only on an \<open>ACTIVE\<close> match,
  which is still \<open>ACTIVE\<close> right after, and an offer once made stays set when the match
  becomes \<open>PAUSED\<close> or \<open>COMPLETED\<close>.
\<close>

theorem draw_offer_after_operation:
  "drawOfferFrom (snd (apply_operation lib now g oper))
     = (case oper of
          OfferDraw q \<Rightarrow>
            if status g = ACTIVE \<and> (q = whitePlayerId g \<or> q = blackPlayerId g)
            then Some q else drawOfferFrom g
        | DeclineDraw \<Rightarrow> if truthy (drawOfferFrom g) then None else drawOfferFrom g
        | _ \<Rightarrow> drawOfferFrom g)
   \<and> (drawOfferFrom (snd (apply_operation lib now g oper)) = Some p
        \<and> drawOfferFrom g \<noteq> Some p
      \<longrightarrow> oper = OfferDraw p \<and> status g = ACTIVE
          \<and> status (snd (apply_operation lib now g oper)) = ACTIVE
          \<and> (p = whitePlayerId g \<or> p = blackPlayerId g))"
proof (cases oper)
  case (MakeMove move)
  then show ?thesis by (simp add: makeMove_keeps_offer)
next
  case (PauseGame q)
  then show ?thesis by (simp add: pauseGame_def)
next
  case ResumeGame
  then show ?thesis by (simp add: resumeGame_def)
next
  case (OfferDraw q)
  then show ?thesis by (auto simp add: offerDraw_def)
next
  case (AcceptDraw q)
  then show ?thesis by (simp add: acceptDraw_def completeGame_def)
next
  case DeclineDraw
  then show ?thesis by (simp add: declineDraw_def)
next
  case (ResignGame q)
  then show ?thesis by (simp add: resignGame_def completeGame_def)
next
  case (CompleteGame res)
  then show ?thesis by (simp add: completeGame_def)
next
  case (UpdateStatus st)
  then show ?thesis by (simp add: updateStatus_def)
qed

theorem draw_offer_after_operation_witness:
  "drawOfferFrom (snd (apply_operation demo_chess 2000 (sample_game ''game-1'')
                         (OfferDraw ''alice''))) = Some ''alice''
   \<and> drawOfferFrom (sample_game ''game-1'') \<noteq> Some ''alice''
   \<and> status (sample_game ''game-1'') = ACTIVE
   \<and> status (snd (apply_operation demo_chess 2000 (sample_game ''game-1'')
                    (OfferDraw ''alice''))) = ACTIVE
   \<and> drawOfferFrom (snd (apply_operation demo_chess 3000 offered_game (PauseGame ''bob'')))
       = Some ''alice''
   \<and> drawOfferFrom (snd (apply_operation demo_chess 3000 offered_game (ResignGame ''bob'')))
       = Some ''alice''
   \<and> drawOfferFrom (snd (apply_operation demo_chess 3000 offered_game (AcceptDraw ''bob'')))
       = Some ''alice''
   \<and> drawOfferFrom (snd (apply_operation demo_chess 3000 offered_game DeclineDraw)) = None"
proof -
  have a: "drawOfferFrom (snd (apply_operation demo_chess 2000 (sample_game ''game-1'')
                         (OfferDraw ''alice''))) = Some ''alice''"
    by (simp add: sample_game_def new_Game_def offerDraw_def)
  have b: "drawOfferFrom (sample_game ''game-1'') \<noteq> Some ''alice''"
    by (simp add: sample_game_def new_Game_def)
  have c: "drawOfferFrom offered_game = Some ''alice''"
    by (simp add: offered_game_def sample_game_def new_Game_def offerDraw_def)
  from a b
    draw_offer_after_operation [of demo_chess 2000 "sample_game ''game-1''"
      "OfferDraw ''alice''" "''alice''", THEN conjunct2]
  have d: "status (sample_game ''game-1'') = ACTIVE"
    and e: "status (snd (apply_operation demo_chess 2000 (sample_game ''game-1'')
                    (OfferDraw ''alice''))) = ACTIVE"
    by blast+
  note keep = draw_offer_after_operation [where lib = demo_chess and now = 3000
      and g = offered_game, THEN conjunct1]
  have f: "drawOfferFrom (snd (apply_operation demo_chess 3000 offered_game
                                 (PauseGame ''bob''))) = Some ''alice''"
    using keep [of "PauseGame ''bob''"] c by simp
  have g: "drawOfferFrom (snd (apply_operation demo_chess 3000 offered_game
                                 (ResignGame ''bob''))) = Some ''alice''"
    using keep [of "ResignGame ''bob''"] c by simp
  have h: "drawOfferFrom (snd (apply_operation demo_chess 3000 offered_game
                                 (AcceptDraw ''bob''))) = Some ''alice''"
    using keep [of "AcceptDraw ''bob''"] c by simp
  have i: "drawOfferFrom (snd (apply_operation demo_chess 3000 offered_game DeclineDraw))
             = None"
    using keep [of DeclineDraw] c by (simp add: truthy_def)
  from a b d e f g h i show ?thesis
    by (intro conjI)
qed

section \<open>Moves\<close>

text \<open>
  C4. On an \<open>ACTIVE\<close> match, a move text the rules engine rejects makes \<open>makeMove\<close> throw
  "Invalid move: ..." and changes no field of the match: the object after the call is
  the object before it, up to the private engine instance, which has been loaded with
  the match's position. In particular the move list is the same and so is the whole
  serialised record (position, move list, position history, status, timestamps).
\<close>

theorem rejected_move_changes_nothing:
  assumes "status g = ACTIVE" and "engine_rejects lib g move"
  shows "fst (makeMove lib now g move) = Inl (Error (''Invalid move: '' @ move))
         \<and> snd (makeMove lib now g move)
             = g\<lparr>chessEngine := chessEngine (snd (makeMove lib now g move))\<rparr>
         \<and> moveHistory (snd (makeMove lib now g move)) = moveHistory g
         \<and> toJSON (snd (makeMove lib now g move)) = toJSON g"
  using assms
  by (auto simp add: makeMove_def validateMoveConditions_def executeMoveOnEngine_def Let_def
      engine_rejects_def makeMoveAndGetSan_def loadFen_def toJSON_def
      split: move_result.splits prod.splits)

theorem rejected_move_changes_nothing_witness:
  "status (sample_game ''game-1'') = ACTIVE
   \<and> engine_rejects demo_chess (sample_game ''game-1'') ''Ke2''
   \<and> fst (makeMove demo_chess 2000 (sample_game ''game-1'') ''Ke2'')
       = Inl (Error ''Invalid move: Ke2'')
   \<and> moveHistory (snd (makeMove demo_chess 2000 (sample_game ''game-1'') ''Ke2'')) = []"
proof -
  have a: "status (sample_game ''game-1'') = ACTIVE"
    by (simp add: sample_game_status)
  have b: "engine_rejects demo_chess (sample_game ''game-1'') ''Ke2''"
    by (simp add: engine_rejects_def sample_game_def new_Game_def demo_chess_def
        demo_parse_def demo_fen_def INITIAL_FEN_def demo_move_def)
  have c: "moveHistory (sample_game ''game-1'') = []"
    by (simp add: sample_game_def new_Game_def)
  from rejected_move_changes_nothing [OF a b, of 2000] a b c show ?thesis by simp
qed

text \<open>
  C9. \<open>validateMove\<close> changes no field of the match (again up to the private engine
  instance, loaded with the position when the match is \<open>ACTIVE\<close>), so the serialised
  record is the same. When the match is not \<open>ACTIVE\<close> the object is untouched, the
  answer is \<open>valid = false\<close> with a reason naming the state, and the answer is the same
  under every rules engine: the engine is not consulted.
\<close>

theorem validateMove_read_only:
  fixes lib lib' :: "'e Chess"
  shows "snd (validateMove lib g move)
           = g\<lparr>chessEngine := chessEngine (snd (validateMove lib g move))\<rparr>
         \<and> toJSON (snd (validateMove lib g move)) = toJSON g
         \<and> (status g \<noteq> ACTIVE \<longrightarrow>
              snd (validateMove lib g move) = g
              \<and> (\<exists>r. fst (validateMove lib g move) = Inr r \<and> \<not> valid r
                     \<and> reason r = Some (if status g = PAUSED then ''Game is paused''
                                         else ''Cannot validate moves in inactive games''))
              \<and> validateMove lib' g move = validateMove lib g move)"
  by (simp add: validateMove_def Let_def toJSON_def)

theorem validateMove_read_only_witness:
  "status paused_game \<noteq> ACTIVE
   \<and> snd (validateMove demo_chess paused_game ''e4'') = paused_game
   \<and> (\<exists>r. fst (validateMove demo_chess paused_game ''e4'') = Inr r \<and> \<not> valid r
           \<and> reason r = Some ''Game is paused'')"
  using validateMove_read_only [of demo_chess paused_game "''e4''" demo_chess]
  by (simp add: paused_game_status)

section \<open>Draw status\<close>

declare decimal.simps [simp del]

lemma split_on_field:
  "no_space a \<Longrightarrow> split_on CHR '' '' (a @ CHR '' '' # r) = a # split_on CHR '' '' r"
  by (induction a) (auto simp add: no_space_def)

lemma split_on_whole: "no_space a \<Longrightarrow> split_on CHR '' '' a = [a]"
  by (induction a) (auto simp add: no_space_def)

lemma digits_val_snoc: "digits_val (ds @ [c]) = 10 * digits_val ds + digit_val c"
  by (simp add: digits_val_def)

lemma digit_char_facts:
  assumes "d < 10"
  shows "is_digit (digit_char d) \<and> \<not> is_space (digit_char d) \<and> digit_char d \<noteq> CHR ''-''
         \<and> digit_char d \<noteq> CHR ''+'' \<and> digit_char d \<noteq> CHR '' ''
         \<and> digit_val (digit_char d) = int d"
proof -
  from assms have "d = 0 \<or> d = 1 \<or> d = 2 \<or> d = 3 \<or> d = 4 \<or> d = 5 \<or> d = 6 \<or> d = 7
                   \<or> d = 8 \<or> d = 9"
    by arith
  then show ?thesis
    by (elim disjE) (simp_all add: digit_char_def is_digit_def is_space_def digit_val_def)
qed

lemma digits_val_decimal: "digits_val (decimal n) = int n"
proof (induction n rule: decimal.induct)
  case (1 n)
  show ?case
  proof (cases "n < 10")
    case True
    with digit_char_facts [of n] show ?thesis
      by (simp add: decimal.simps [of n] digits_val_def)
  next
    case False
    have "10 * int (n div 10) + int (n mod 10) = int n" by presburger
    with False 1 digit_char_facts [of "n mod 10"] show ?thesis
      by (simp add: decimal.simps [of n] digits_val_snoc)
  qed
qed

lemma split_on_first:
  assumes "no_space a" and "ends_field r"
  shows "\<exists>rest. split_on CHR '' '' (a @ r) = a # rest"
proof (cases r)
  case Nil
  with assms show ?thesis by (simp add: split_on_whole)
next
  case (Cons c r')
  with assms show ?thesis by (simp add: ends_field_def split_on_field)
qed

lemma four_fields:
  assumes "no_space a" and "no_space b" and "no_space c" and "no_space d" and "ends_field r"
  shows "\<exists>rest. split_on CHR '' '' (a @ '' '' @ b @ '' '' @ c @ '' '' @ d @ r)
                = a # b # c # d # rest"
  using assms split_on_first [of d r] by (auto simp add: split_on_field)

lemma getPositionKey_fields:
  assumes "no_space a" and "no_space b" and "no_space c" and "no_space d" and "ends_field r"
  shows "getPositionKey (a @ '' '' @ b @ '' '' @ c @ '' '' @ d @ r)
           = a @ '' '' @ b @ '' '' @ c @ '' '' @ d"
proof -
  from four_fields [OF assms] obtain rest where
    "split_on CHR '' '' (a @ '' '' @ b @ '' '' @ c @ '' '' @ d @ r) = a # b # c # d # rest"
    by blast
  then show ?thesis
    by (simp add: getPositionKey_def Let_def at_index_def interpolate_def)
qed

lemma fifth_field:
  assumes "no_space a" and "no_space b" and "no_space c" and "no_space d" and "no_space h"
    and "ends_field r"
  shows "at_index (split_on CHR '' ''
                     (a @ '' '' @ b @ '' '' @ c @ '' '' @ d @ '' '' @ h @ r)) 4 = Some h"
proof -
  from split_on_first [of h r] assms obtain rest where
    "split_on CHR '' '' (h @ r) = h # rest"
    by blast
  with assms show ?thesis by (simp add: split_on_field at_index_def)
qed

lemma decimal_chars:
  "decimal n \<noteq> [] \<and> (\<forall>c\<in>set (decimal n). is_digit c \<and> c \<noteq> CHR '' '')
   \<and> \<not> is_space (hd (decimal n)) \<and> hd (decimal n) \<noteq> CHR ''-''
   \<and> hd (decimal n) \<noteq> CHR ''+''"
proof (induction n rule: decimal.induct)
  case (1 n)
  show ?case
  proof (cases "n < 10")
    case True
    with digit_char_facts [of n] show ?thesis by (simp add: decimal.simps [of n])
  next
    case False
    with 1 digit_char_facts [of "n mod 10"] show ?thesis
      by (simp add: decimal.simps [of n])
  qed
qed

lemma no_space_decimal: "no_space (decimal n)"
  using decimal_chars [of n] by (auto simp add: no_space_def)

lemma parseInt_decimal:
  "parseInt (decimal n) = (if n \<le> 2 ^ 53 then Num (int n) else Beyond True)"
proof -
  from decimal_chars [of n] obtain c cs where cs: "decimal n = c # cs"
    by (cases "decimal n") auto
  from decimal_chars [of n] have dw: "dropWhile is_space (decimal n) = decimal n"
    by (simp add: dropWhile_eq_self_iff)
  from decimal_chars [of n] have tw: "takeWhile is_digit (decimal n) = decimal n"
    by (simp add: takeWhile_eq_all_conv)
  from decimal_chars [of n] cs have sign: "c \<noteq> CHR ''-''" "c \<noteq> CHR ''+''"
    by simp_all
  have le: "(int n \<le> 2 ^ 53) = (n \<le> 2 ^ 53)"
    by (metis of_nat_le_iff of_nat_numeral of_nat_power)
  have "parseInt (c # cs) = (if n \<le> 2 ^ 53 then Num (int n) else Beyond True)"
    using sign tw digits_val_decimal [of n] le dw
    by (simp add: parseInt_def Let_def cs)
  then show ?thesis by (simp add: cs)
qed

lemma demo_parse_fen: "demo_parse (demo_fen x) = Some x"
  by (cases x) (simp_all add: demo_parse_def demo_fen_def)

lemma opening_key:
  "getPositionKey ''rnbqkbnr/pppppppp/8/8/8/8/PPPPPPPP/RNBQKBNR w KQkq - 0 1''
     = ''rnbqkbnr/pppppppp/8/8/8/8/PPPPPPPP/RNBQKBNR w KQkq -''"
  using getPositionKey_fields [of "''rnbqkbnr/pppppppp/8/8/8/8/PPPPPPPP/RNBQKBNR''" "''w''"
      "''KQkq''" "''-''" "'' 0 1''"]
  by (simp add: no_space_def ends_field_def)

lemma demo_keys:
  "getPositionKey (demo_fen AfterNf3)
     = ''rnbqkbnr/pppppppp/8/8/8/5N2/PPPPPPPP/RNBQKB1R b KQkq -''"
  "getPositionKey (demo_fen AfterNf3Nf6)
     = ''rnbqkb1r/pppppppp/5n2/8/8/5N2/PPPPPPPP/RNBQKB1R w KQkq -''"
  "getPositionKey (demo_fen AfterNg1)
     = ''rnbqkb1r/pppppppp/5n2/8/8/8/PPPPPPPP/RNBQKBNR b KQkq -''"
  "getPositionKey (demo_fen BackAtStart)
     = ''rnbqkbnr/pppppppp/8/8/8/8/PPPPPPPP/RNBQKBNR w KQkq -''"
  using
    getPositionKey_fields [of "''rnbqkbnr/pppppppp/8/8/8/5N2/PPPPPPPP/RNBQKB1R''" "''b''"
      "''KQkq''" "''-''" "'' 1 1''"]
    getPositionKey_fields [of "''rnbqkb1r/pppppppp/5n2/8/8/5N2/PPPPPPPP/RNBQKB1R''" "''w''"
      "''KQkq''" "''-''" "'' 2 2''"]
    getPositionKey_fields [of "''rnbqkb1r/pppppppp/5n2/8/8/8/PPPPPPPP/RNBQKBNR''" "''b''"
      "''KQkq''" "''-''" "'' 3 2''"]
    getPositionKey_fields [of "''rnbqkbnr/pppppppp/8/8/8/8/PPPPPPPP/RNBQKBNR''" "''w''"
      "''KQkq''" "''-''" "'' 4 3''"]
  by (simp_all add: no_space_def ends_field_def demo_fen_def)

lemma demo_step:
  assumes "status g = ACTIVE" and "fen g = demo_fen x"
    and "demo_move x m = (MoveSan m, y)" and "m \<noteq> []"
    and "getPositionKey (demo_fen y) = k"
  shows "status (snd (makeMove demo_chess now g m)) = ACTIVE"
    and "fen (snd (makeMove demo_chess now g m)) = demo_fen y"
    and "moveHistory (snd (makeMove demo_chess now g m)) = moveHistory g @ [m]"
    and "positionHistory (snd (makeMove demo_chess now g m))
             = (positionHistory g)
                 (k \<mapsto> (case positionHistory g k of None \<Rightarrow> 0 | Some c \<Rightarrow> c) + 1)"
  using assms
  by (simp_all add: makeMove_def validateMoveConditions_def executeMoveOnEngine_def
      loadFen_def makeMoveAndGetSan_def updateGameStateAfterMove_def updatePositionHistory_def
      checkAndHandleGameEnd_def getFen_def isGameOver_def Let_def demo_chess_def
      demo_parse_fen)

lemma returned_game_state:
  "status returned_game = ACTIVE
   \<and> fen returned_game = ''rnbqkbnr/pppppppp/8/8/8/8/PPPPPPPP/RNBQKBNR w KQkq - 4 3''
   \<and> moveHistory returned_game = [''Nf3'', ''Nf6'', ''Ng1'', ''Ng8'']
   \<and> positionHistory returned_game ''rnbqkbnr/pppppppp/8/8/8/8/PPPPPPPP/RNBQKBNR w KQkq -''
       = Some 2"
proof -
  let ?k0 = "''rnbqkbnr/pppppppp/8/8/8/8/PPPPPPPP/RNBQKBNR w KQkq -''"
  let ?g0 = "sample_game ''game-1''"
  let ?g1 = "snd (makeMove demo_chess 2000 ?g0 ''Nf3'')"
  let ?g2 = "snd (makeMove demo_chess 3000 ?g1 ''Nf6'')"
  let ?g3 = "snd (makeMove demo_chess 4000 ?g2 ''Ng1'')"
  let ?g4 = "snd (makeMove demo_chess 5000 ?g3 ''Ng8'')"
  have g0: "status ?g0 = ACTIVE" "fen ?g0 = demo_fen AtStart" "moveHistory ?g0 = []"
    "positionHistory ?g0 ?k0 = Some 1"
    by (simp_all add: sample_game_def new_Game_def INITIAL_FEN_def demo_fen_def opening_key)
  have s1: "demo_move AtStart ''Nf3'' = (MoveSan ''Nf3'', AfterNf3)"
    and s2: "demo_move AfterNf3 ''Nf6'' = (MoveSan ''Nf6'', AfterNf3Nf6)"
    and s3: "demo_move AfterNf3Nf6 ''Ng1'' = (MoveSan ''Ng1'', AfterNg1)"
    and s4: "demo_move AfterNg1 ''Ng8'' = (MoveSan ''Ng8'', BackAtStart)"
    by (simp_all add: demo_move_def)
  have ne: "''Nf3'' \<noteq> []" "''Nf6'' \<noteq> []" "''Ng1'' \<noteq> []" "''Ng8'' \<noteq> []"
    by simp_all
  note g1 = demo_step [OF g0(1) g0(2) s1 ne(1) demo_keys(1), of 2000]
  note g2 = demo_step [OF g1(1) g1(2) s2 ne(2) demo_keys(2), of 3000]
  note g3 = demo_step [OF g2(1) g2(2) s3 ne(3) demo_keys(3), of 4000]
  note g4 = demo_step [OF g3(1) g3(2) s4 ne(4) demo_keys(4), of 5000]
  have p1: "positionHistory ?g1 ?k0 = Some 1"
    by (simp add: g1(4) g0(4))
  have p2: "positionHistory ?g2 ?k0 = Some 1"
    by (simp add: g2(4) p1)
  have p3: "positionHistory ?g3 ?k0 = Some 1"
    by (simp add: g3(4) p2)
  have p4: "positionHistory ?g4 ?k0 = Some 2"
    by (simp add: g4(4) p3)
  have mh: "moveHistory ?g4 = [''Nf3'', ''Nf6'', ''Ng1'', ''Ng8'']"
    by (simp add: g4(3) g3(3) g2(3) g1(3) g0(3))
  have r: "returned_game = ?g4"
    by (simp add: returned_game_def)
  from g4(1) g4(2) mh p4 show ?thesis
    unfolding r by (simp add: demo_fen_def)
qed

text \<open>
  C8. \<open>getDrawStatus\<close> answers \<open>null\<close> exactly when the match is not \<open>ACTIVE\<close>. On an
  \<open>ACTIVE\<close> match it answers a record in which
  \<^item> \<open>halfmoveClock\<close> is the fifth space-separated field of the position encoding the
    engine gives after loading the match's position, read by \<open>parseInt\<close> (0 when that
    field is missing or empty): when the encoding is four fields, the numeral of \<open>n\<close>
    and whatever follows, the clock is \<open>n\<close> (up to \<open>2 ^ 53\<close>, a rounding of it above); and
    it is the fifth field of the match's own position whenever the engine loads that
    position and encodes it back unchanged;
  \<^item> \<open>movesUntilFiftyMove\<close> is \<open>50 - floor (halfmoveClock / 2)\<close>;
  \<^item> \<open>repetitionCount\<close> is the entry of \<open>positionHistory\<close> at the fingerprint of the
    match's position, 0 without an entry, the fingerprint being the first four fields
    of the position joined by single spaces, counters left out;
  \<^item> \<open>isApproachingFiftyMove\<close> says \<open>halfmoveClock \<ge> 80\<close>, and
    \<open>isApproachingRepetition\<close> says \<open>repetitionCount \<ge> 2\<close>.
\<close>

theorem getDrawStatus_values:
  "(fst (getDrawStatus lib g) = None \<longleftrightarrow> status g \<noteq> ACTIVE)
   \<and> (status g = ACTIVE \<longrightarrow>
        (\<exists>ds. fst (getDrawStatus lib g) = Some ds
           \<and> halfmoveClock ds
               = (case at_index (split_on CHR '' ''
                        (chess_fen lib (snd (chess_load lib (chessEngine g) (fen g))))) 4 of
                    None \<Rightarrow> Num 0
                  | Some part \<Rightarrow> if part = [] then Num 0 else parseInt part)
           \<and> (no_space a \<and> no_space b \<and> no_space c \<and> no_space d \<and> ends_field r
                \<and> chess_fen lib (snd (chess_load lib (chessEngine g) (fen g)))
                    = a @ '' '' @ b @ '' '' @ c @ '' '' @ d @ '' '' @ decimal n @ r
                \<longrightarrow> halfmoveClock ds = (if n \<le> 2 ^ 53 then Num (int n) else Beyond True))
           \<and> (fst (chess_load lib (chessEngine g) (fen g))
                \<and> chess_fen lib (snd (chess_load lib (chessEngine g) (fen g))) = fen g
                \<longrightarrow> halfmoveClock ds
                      = (case at_index (split_on CHR '' '' (fen g)) 4 of
                           None \<Rightarrow> Num 0
                         | Some part \<Rightarrow> if part = [] then Num 0 else parseInt part))
           \<and> movesUntilFiftyMove ds
               = (case halfmoveClock ds of
                    NaN \<Rightarrow> NaN
                  | Num h \<Rightarrow> Num (50 - h div 2)
                  | Beyond positive \<Rightarrow> Beyond (\<not> positive))
           \<and> repetitionCount ds
               = (case positionHistory g (getPositionKey (fen g)) of
                    None \<Rightarrow> 0 | Some k \<Rightarrow> k)
           \<and> (no_space a' \<and> no_space b' \<and> no_space c' \<and> no_space d' \<and> ends_field r'
                \<and> fen g = a' @ '' '' @ b' @ '' '' @ c' @ '' '' @ d' @ r'
                \<longrightarrow> repetitionCount ds
                      = (case positionHistory g (a' @ '' '' @ b' @ '' '' @ c' @ '' '' @ d') of
                           None \<Rightarrow> 0 | Some k \<Rightarrow> k))
           \<and> (isApproachingFiftyMove ds
                \<longleftrightarrow> (case halfmoveClock ds of
                       NaN \<Rightarrow> False
                     | Num h \<Rightarrow> h \<ge> 80
                     | Beyond positive \<Rightarrow> positive))
           \<and> (isApproachingRepetition ds \<longleftrightarrow> repetitionCount ds \<ge> 2)))"
proof -
  let ?enc = "chess_fen lib (snd (chess_load lib (chessEngine g) (fen g)))"
  have clock: "no_space a \<and> no_space b \<and> no_space c \<and> no_space d \<and> ends_field r
        \<and> ?enc = a @ '' '' @ b @ '' '' @ c @ '' '' @ d @ '' '' @ decimal n @ r
      \<longrightarrow> (case at_index (split_on CHR '' '' ?enc) 4 of
             None \<Rightarrow> Num 0
           | Some part \<Rightarrow> if part = [] then Num 0 else parseInt part)
          = (if n \<le> 2 ^ 53 then Num (int n) else Beyond True)"
  proof
    assume h: "no_space a \<and> no_space b \<and> no_space c \<and> no_space d \<and> ends_field r
        \<and> ?enc = a @ '' '' @ b @ '' '' @ c @ '' '' @ d @ '' '' @ decimal n @ r"
    then have "at_index (split_on CHR '' '' ?enc) 4 = Some (decimal n)"
      using fifth_field [of a b c d "decimal n" r] no_space_decimal [of n] by simp
    moreover have "decimal n \<noteq> []" using decimal_chars [of n] by simp
    ultimately show "(case at_index (split_on CHR '' '' ?enc) 4 of
             None \<Rightarrow> Num 0
           | Some part \<Rightarrow> if part = [] then Num 0 else parseInt part)
          = (if n \<le> 2 ^ 53 then Num (int n) else Beyond True)"
      by (simp add: parseInt_decimal)
  qed
  have key: "no_space a' \<and> no_space b' \<and> no_space c' \<and> no_space d' \<and> ends_field r'
        \<and> fen g = a' @ '' '' @ b' @ '' '' @ c' @ '' '' @ d' @ r'
      \<longrightarrow> getPositionKey (fen g) = a' @ '' '' @ b' @ '' '' @ c' @ '' '' @ d'"
    using getPositionKey_fields [of a' b' c' d' r'] by simp
  show ?thesis
  proof (cases "status g = ACTIVE")
    case False
    then show ?thesis by (simp add: getDrawStatus_def)
  next
    case True
    with clock key show ?thesis
      by (simp add: getDrawStatus_def Let_def getHalfmoveClock_def loadFen_def
          getPositionRepetitionCount_def)
  qed
qed

theorem getDrawStatus_values_witness:
  "status endgame_game = ACTIVE
   \<and> fst (getDrawStatus demo_chess endgame_game)
       = Some \<lparr>halfmoveClock = Num 85, movesUntilFiftyMove = Num 8, repetitionCount = 2,
                isApproachingFiftyMove = True, isApproachingRepetition = True\<rparr>
   \<and> status returned_game = ACTIVE
   \<and> fst (getDrawStatus demo_chess returned_game)
       = Some \<lparr>halfmoveClock = Num 4, movesUntilFiftyMove = Num 48, repetitionCount = 2,
                isApproachingFiftyMove = False, isApproachingRepetition = True\<rparr>
   \<and> status (sample_game ''game-1'') = ACTIVE
   \<and> fst (getDrawStatus demo_chess (sample_game ''game-1''))
       = Some \<lparr>halfmoveClock = Num 0, movesUntilFiftyMove = Num 50, repetitionCount = 1,
                isApproachingFiftyMove = False, isApproachingRepetition = False\<rparr>
   \<and> status paused_game \<noteq> ACTIVE
   \<and> fst (getDrawStatus demo_chess paused_game) = None"
proof -
  have ns: "no_space ''8/8/8/4k3/8/8/8/4K2R''" "no_space ''w''" "no_space ''-''"
    "ends_field '' 60''" "ends_field '' 85 60''"
    by (simp_all add: no_space_def ends_field_def)
  have d85: "decimal 85 = ''85''"
    by (simp add: decimal.simps digit_char_def)
  have st: "status endgame_game = ACTIVE"
    by (simp add: endgame_game_def sample_game_status)
  have fe: "fen endgame_game = ''8/8/8/4k3/8/8/8/4K2R w - - 85 60''"
    by (simp add: endgame_game_def)
  have enc: "chess_fen demo_chess
               (snd (chess_load demo_chess (chessEngine endgame_game) (fen endgame_game)))
             = ''8/8/8/4k3/8/8/8/4K2R w - - 85 60''"
    by (simp add: fe demo_chess_def demo_parse_def demo_fen_def)
  have ph: "positionHistory endgame_game ''8/8/8/4k3/8/8/8/4K2R w - -'' = Some 2"
    by (simp add: endgame_game_def)
  from getDrawStatus_values [of demo_chess endgame_game "''8/8/8/4k3/8/8/8/4K2R''" "''w''"
      "''-''" "''-''" "'' 60''" 85 "''8/8/8/4k3/8/8/8/4K2R''" "''w''" "''-''" "''-''"
      "'' 85 60''"] st ns d85 fe enc ph
  obtain ds where ds: "fst (getDrawStatus demo_chess endgame_game) = Some ds"
    and "halfmoveClock ds = Num 85" and "movesUntilFiftyMove ds = Num 8"
    and "repetitionCount ds = 2" and "isApproachingFiftyMove ds"
    and "isApproachingRepetition ds"
    by auto
  then have e: "fst (getDrawStatus demo_chess endgame_game)
       = Some \<lparr>halfmoveClock = Num 85, movesUntilFiftyMove = Num 8, repetitionCount = 2,
                isApproachingFiftyMove = True, isApproachingRepetition = True\<rparr>"
    by (cases ds) simp
  have renc: "chess_fen demo_chess
               (snd (chess_load demo_chess (chessEngine returned_game) (fen returned_game)))
             = ''rnbqkbnr/pppppppp/8/8/8/8/PPPPPPPP/RNBQKBNR w KQkq - 4 3''"
    using returned_game_state by (simp add: demo_chess_def demo_parse_def demo_fen_def)
  have d4: "decimal 4 = ''4''"
    by (simp add: decimal.simps digit_char_def)
  have ns2: "no_space ''rnbqkbnr/pppppppp/8/8/8/8/PPPPPPPP/RNBQKBNR''" "no_space ''KQkq''"
    "ends_field '' 3''" "ends_field '' 4 3''"
    by (simp_all add: no_space_def ends_field_def)
  from getDrawStatus_values [of demo_chess returned_game
      "''rnbqkbnr/pppppppp/8/8/8/8/PPPPPPPP/RNBQKBNR''" "''w''" "''KQkq''" "''-''" "'' 3''" 4
      "''rnbqkbnr/pppppppp/8/8/8/8/PPPPPPPP/RNBQKBNR''" "''w''" "''KQkq''" "''-''"
      "'' 4 3''"] returned_game_state ns ns2 d4 renc
  obtain rs where "fst (getDrawStatus demo_chess returned_game) = Some rs"
    and "halfmoveClock rs = Num 4" and "movesUntilFiftyMove rs = Num 48"
    and "repetitionCount rs = 2" and "\<not> isApproachingFiftyMove rs"
    and "isApproachingRepetition rs"
    by auto
  then have r: "fst (getDrawStatus demo_chess returned_game)
       = Some \<lparr>halfmoveClock = Num 4, movesUntilFiftyMove = Num 48, repetitionCount = 2,
                isApproachingFiftyMove = False, isApproachingRepetition = True\<rparr>"
    by (cases rs) simp
  have a: "status (sample_game ''game-1'') = ACTIVE"
    by (simp add: sample_game_status)
  have b: "fst (getDrawStatus demo_chess (sample_game ''game-1''))
       = Some \<lparr>halfmoveClock = Num 0, movesUntilFiftyMove = Num 50, repetitionCount = 1,
                isApproachingFiftyMove = False, isApproachingRepetition = False\<rparr>"
    by (simp add: getDrawStatus_def sample_game_def new_Game_def Let_def loadFen_def
        demo_chess_def demo_parse_def demo_fen_def INITIAL_FEN_def getHalfmoveClock_def
        at_index_def parseInt_def is_space_def is_digit_def digits_val_def digit_val_def
        getPositionRepetitionCount_def)
  from getDrawStatus_values [of demo_chess paused_game] st e r a b returned_game_state
  show ?thesis by (simp add: paused_game_status)
qed

section \<open>The store and the manager\<close>

lemma map_throwing_Inr:
  "(\<And>x. f x = Inr (h x)) \<Longrightarrow> map_throwing f xs = Inr (map h xs)"
  by (induction xs) simp_all

lemma loadAllGames_eq:
  "loadAllGames lib games =
     Inr (map (\<lambda>g. g\<lparr>currentTurn :=
              (if at_index (split_on CHR '' '' (fen g)) 1 = Some ''w'' then WHITE else BLACK),
            drawDetails := None,
            chessEngine := replay lib (chess_new lib) (moveHistory g)\<rparr>) (map snd games))"
  unfolding loadAllGames_def by (rule map_throwing_Inr) (rule fromJSON_of_toJSON)

lemma countActiveGames_eq: "countActiveGames lib games = Inr (active_count games)"
  by (simp add: countActiveGames_def loadGamesByStatus_def loadAllGames_eq active_count_def
      filter_map comp_def)

lemma new_Game_copy:
  "fromJSON lib (toJSON (new_Game lib uuid now w b tc)) = Inr (new_Game lib uuid now w b tc)"
proof -
  have "at_index (split_on CHR '' '' INITIAL_FEN) 1 = Some ''w''"
    by (simp add: INITIAL_FEN_def at_index_def)
  then show ?thesis
    by (simp add: fromJSON_of_toJSON) (simp add: new_Game_def Let_def)
qed

lemma map_of_update_same: "map_of (AList.update k v al) k = Some v"
  by (simp add: AList.update_conv')

lemma copy_keeps_status_and_id:
  fixes lib :: "'e Chess" and g :: "'e Game"
  shows "\<exists>c. fromJSON lib (toJSON g) = Inr c \<and> status c = status g
             \<and> game_id c = game_id g"
  by (simp add: fromJSON_of_toJSON)

lemma saveGame_ex:
  "\<exists>c. saveGame lib games g = (Inr (), AList.update (game_id g) c games)
       \<and> status c = status g"
proof -
  from copy_keeps_status_and_id [of lib g] obtain c where
    "fromJSON lib (toJSON g) = Inr c" and "status c = status g"
    by blast
  then have "saveGame lib games g = (Inr (), AList.update (game_id g) c games)
             \<and> status c = status g"
    by (simp add: saveGame_def)
  then show ?thesis by blast
qed

lemma saveGame_fst: "fst (saveGame lib games g) = Inr ()"
  using saveGame_ex [of lib games g] by auto






lemma five_active_count: "active_count five_active = 5"
  by (simp add: active_count_def five_active_def sample_game_status)

text \<open>
  C7. The store's count of active games is the number of stored matches whose status is
  \<open>ACTIVE\<close>. When that number has reached the ceiling, \<open>createGame\<close> throws "Maximum
  number of concurrent games (5) reached" and the store is what it was. Below the
  ceiling, \<open>createGame\<close> returns a new match, which is \<open>ACTIVE\<close>, the store holds it under
  its identifier, and loading that identifier gives it back.
\<close>

theorem createGame_admission:
  "countActiveGames lib games = Inr (active_count games)
   \<and> (MAX_CONCURRENT_GAMES \<le> active_count games \<longrightarrow>
        createGame lib uuid now games w b tc
          = (Inl (Error ''Maximum number of concurrent games (5) reached''), games))
   \<and> (active_count games < MAX_CONCURRENT_GAMES \<longrightarrow>
        createGame lib uuid now games w b tc
          = (Inr (new_Game lib uuid now w b tc),
             AList.update uuid (new_Game lib uuid now w b tc) games)
        \<and> status (new_Game lib uuid now w b tc) = ACTIVE
        \<and> loadGame lib (snd (createGame lib uuid now games w b tc)) uuid
            = Inr (Some (new_Game lib uuid now w b tc)))"
proof -
  have ident: "game_id (new_Game lib uuid now w b tc) = uuid"
    by (simp add: new_Game_def Let_def)
  have st: "status (new_Game lib uuid now w b tc) = ACTIVE"
    by (simp add: new_Game_def Let_def)
  show ?thesis
    by (simp add: createGame_def countActiveGames_eq saveGame_def new_Game_copy ident st
        loadGame_def map_of_update_same Let_def)
qed

theorem createGame_admission_witness:
  "MAX_CONCURRENT_GAMES \<le> active_count five_active
   \<and> createGame demo_chess ''game-6'' 5000 five_active ''carol'' ''dave'' None
       = (Inl (Error ''Maximum number of concurrent games (5) reached''), five_active)
   \<and> active_count ([] :: demo_state store) < MAX_CONCURRENT_GAMES
   \<and> createGame demo_chess ''game-1'' 1000 [] ''alice'' ''bob'' None
       = (Inr (sample_game ''game-1''), [(''game-1'', sample_game ''game-1'')])"
proof -
  have a: "MAX_CONCURRENT_GAMES \<le> active_count five_active"
    by (simp add: five_active_count MAX_CONCURRENT_GAMES_def)
  have b: "active_count ([] :: demo_state store) < MAX_CONCURRENT_GAMES"
    by (simp add: active_count_def MAX_CONCURRENT_GAMES_def)
  from a b
    createGame_admission
      [of demo_chess five_active "''game-6''" 5000 "''carol''" "''dave''" None]
    createGame_admission [of demo_chess "[]" "''game-1''" 1000 "''alice''" "''bob''" None]
  show ?thesis by (simp add: sample_game_def)
qed



text \<open>
  C5, as stated, fails for \<open>declineDraw\<close>: the manager's wrapper checks the caller first.
  On a stored match with alice's offer outstanding, the entity's \<open>declineDraw\<close> succeeds
  on the loaded match, while the wrapper called for a stranger throws.
\<close>

theorem manager_declineDraw_checks_player:
  "(case loadGame demo_chess offered_store ''game-1'' of
      Inr (Some game) \<Rightarrow> fst (declineDraw 3000 game) = Inr ()
    | _ \<Rightarrow> False)
   \<and> fst (manager_declineDraw demo_chess 3000 offered_store ''game-1'' ''mallory'')
       = Inl (Error ''Player not in this game'')"
  by (simp add: offered_store_def offered_game_def sample_game_def new_Game_def offerDraw_def
      loadGame_def fromJSON_of_toJSON declineDraw_def truthy_def manager_declineDraw_def)

lemma offered_store_load:
  "loadGame demo_chess offered_store ''game-1'' = Inr (Some offered_game)"
  by (simp add: offered_store_def offered_game_def sample_game_def new_Game_def offerDraw_def
      loadGame_def fromJSON_of_toJSON INITIAL_FEN_def at_index_def demo_chess_def)

text \<open>
  C5, amended. The wrappers for \<open>makeMove\<close>, \<open>resignGame\<close>, \<open>offerDraw\<close>, \<open>acceptDraw\<close>,
  \<open>pauseGame\<close>, \<open>resumeGame\<close> and \<open>completeGame\<close> are the plain load, operate, persist
  sequence around the entity operation: on a stored match each succeeds exactly when
  the entity operation succeeds on the loaded match, and fails with the entity's error
  otherwise. The wrapper for \<open>declineDraw\<close> is that sequence around a guarded operation:
  it takes a player identifier and throws "Player not in this game" when the
  identifier is neither participant, before the entity's \<open>declineDraw\<close> runs.
\<close>

theorem manager_wrappers_pass_through:
  "manager_makeMove lib now games gameId move
     = load_mutate_persist lib games gameId (\<lambda>game. makeMove lib now game move)
   \<and> manager_resignGame lib now games gameId playerId
     = load_mutate_persist lib games gameId (\<lambda>game. resignGame now game playerId)
   \<and> manager_offerDraw lib now games gameId playerId
     = load_mutate_persist lib games gameId (\<lambda>game. offerDraw now game playerId)
   \<and> manager_acceptDraw lib now games gameId playerId
     = load_mutate_persist lib games gameId (\<lambda>game. acceptDraw now game playerId)
   \<and> manager_pauseGame lib now games gameId playerId
     = load_mutate_persist lib games gameId (\<lambda>game. pauseGame now game playerId)
   \<and> manager_resumeGame lib now games gameId
     = load_mutate_persist lib games gameId (\<lambda>game. resumeGame now game)
   \<and> manager_completeGame lib now games gameId res
     = load_mutate_persist lib games gameId (\<lambda>game. completeGame now game res)
   \<and> manager_declineDraw lib now games gameId playerId
     = load_mutate_persist lib games gameId
         (\<lambda>game. if playerId \<noteq> whitePlayerId game \<and> playerId \<noteq> blackPlayerId game
                 then (Inl (Error ''Player not in this game''), game)
                 else declineDraw now game)
   \<and> (loadGame lib games gameId = Inr (Some loaded) \<longrightarrow>
        fst (load_mutate_persist lib games gameId operation) = fst (operation loaded))"
proof -
  have wrap: "\<And>operation.
      (case loadGame lib games gameId of
         Inl err \<Rightarrow> (Inl err, games)
       | Inr None \<Rightarrow> (Inl (Error ''Game not found''), games)
       | Inr (Some game) \<Rightarrow>
           (case operation game of
              (Inl err, _) \<Rightarrow> (Inl err, games)
            | (Inr _, game') \<Rightarrow> saveGame lib games game'))
      = load_mutate_persist lib games gameId operation"
    by (simp add: load_mutate_persist_def split: sum.splits option.splits prod.splits)
  have dd: "manager_declineDraw lib now games gameId playerId
     = load_mutate_persist lib games gameId
         (\<lambda>game. if playerId \<noteq> whitePlayerId game \<and> playerId \<noteq> blackPlayerId game
                 then (Inl (Error ''Player not in this game''), game)
                 else declineDraw now game)"
    by (simp add: manager_declineDraw_def load_mutate_persist_def
        split: sum.splits option.splits prod.splits)
  have pass: "loadGame lib games gameId = Inr (Some loaded) \<longrightarrow>
        fst (load_mutate_persist lib games gameId operation) = fst (operation loaded)"
    by (simp add: load_mutate_persist_def saveGame_fst split: sum.splits)
  show ?thesis
    unfolding manager_makeMove_def manager_resignGame_def manager_offerDraw_def
      manager_acceptDraw_def manager_pauseGame_def manager_resumeGame_def
      manager_completeGame_def wrap
    using dd pass by simp
qed

theorem manager_wrappers_pass_through_witness:
  "loadGame demo_chess offered_store ''game-1'' = Inr (Some offered_game)
   \<and> fst (manager_offerDraw demo_chess 3000 offered_store ''game-1'' ''bob'')
       = fst (offerDraw 3000 offered_game ''bob'')
   \<and> fst (manager_offerDraw demo_chess 3000 offered_store ''game-1'' ''bob'') = Inr ()"
proof -
  have "fst (offerDraw 3000 offered_game ''bob'') = Inr ()"
    by (simp add: offered_game_def sample_game_def new_Game_def offerDraw_def)
  with offered_store_load
    manager_wrappers_pass_through
      [where lib = demo_chess and now = 3000 and games = offered_store
        and gameId = "''game-1''" and playerId = "''bob''" and loaded = offered_game
        and operation = "\<lambda>game. offerDraw 3000 game ''bob''"]
  show ?thesis by simp
qed

end
